theory Spec2Isabelle
  imports Complex_Main "HOL-Library.Sublist"
begin

section \<open>Python primitives used by the outreach pipeline\<close>

text \<open>
  Python \<open>str\<close> values are modelled as \<open>string\<close>, one \<open>char\<close> per code point, which covers
  text whose code points are below 256 (Latin-1). \<open>len\<close> is \<open>length\<close>, read as an \<open>int\<close>
  where the source compares it with an integer parameter. An \<open>Optional[str]\<close> is a
  \<open>string option\<close>; Python's truth test on it is \<open>truthy\<close>. Python integers are \<open>int\<close>.

  A raised exception is an \<open>Inl\<close> of the result. \<open>External msg\<close> stands for an exception
  raised inside a collaborator (the database driver, the HTTP client, the generation
  service) whose \<open>str\<close> is \<open>msg\<close>.
\<close>

datatype error =
    IndexError
  | ValueError
  | TypeError
  | AttributeError
  | External string

definition truthy :: "string option \<Rightarrow> bool" where
  "truthy v = (case v of None \<Rightarrow> False | Some s \<Rightarrow> s \<noteq> [])"

definition py_isspace :: "char \<Rightarrow> bool" where
  \<comment> \<open>\<open>str.isspace\<close> on code points below 256\<close>
  "py_isspace c =
     (let n = (of_char c :: nat)
      in (9 \<le> n \<and> n \<le> 13) \<or> (28 \<le> n \<and> n \<le> 32) \<or> n = 133 \<or> n = 160)"

definition py_strip :: "string \<Rightarrow> string" where
  \<comment> \<open>\<open>s.strip()\<close>\<close>
  "py_strip s = rev (dropWhile py_isspace (rev (dropWhile py_isspace s)))"

definition py_strip_chars :: "string \<Rightarrow> string \<Rightarrow> string" where
  \<comment> \<open>\<open>s.strip(chars)\<close>\<close>
  "py_strip_chars chars s =
     rev (dropWhile (\<lambda>c. c \<in> set chars) (rev (dropWhile (\<lambda>c. c \<in> set chars) s)))"

fun split_from :: "string \<Rightarrow> string \<Rightarrow> string list" where
  \<comment> \<open>the scan of \<open>s.split()\<close>: \<open>cur\<close> is the token being read\<close>
  "split_from cur [] = (if cur = [] then [] else [cur])"
| "split_from cur (c # cs) =
     (if py_isspace c
      then (if cur = [] then split_from [] cs else cur # split_from [] cs)
      else split_from (cur @ [c]) cs)"

definition py_split :: "string \<Rightarrow> string list" where
  \<comment> \<open>\<open>s.split()\<close>: maximal runs of non-whitespace\<close>
  "py_split s = split_from [] s"

definition py_lower_char :: "char \<Rightarrow> char" where
  "py_lower_char c =
     (let n = (of_char c :: nat)
      in if (65 \<le> n \<and> n \<le> 90) \<or> (192 \<le> n \<and> n \<le> 222 \<and> n \<noteq> 215)
         then char_of (n + 32) else c)"

definition py_lower :: "string \<Rightarrow> string" where
  \<comment> \<open>\<open>s.lower()\<close>\<close>
  "py_lower s = map py_lower_char s"

fun py_in :: "string \<Rightarrow> string \<Rightarrow> bool" where
  \<comment> \<open>\<open>needle in hay\<close> on strings: \<open>needle\<close> occurs as a contiguous run\<close>
  "py_in needle [] = (needle = [])"
| "py_in needle (h # hs) = (prefix needle (h # hs) \<or> py_in needle hs)"

fun py_rfind :: "char \<Rightarrow> string \<Rightarrow> int" where
  \<comment> \<open>\<open>s.rfind(c)\<close>: the highest index of \<open>c\<close>, or \<open>-1\<close>\<close>
  "py_rfind c [] = - 1"
| "py_rfind c (x # xs) =
     (let r = py_rfind c xs
      in if 0 \<le> r then r + 1 else if x = c then 0 else - 1)"

definition py_slice_to :: "string \<Rightarrow> int \<Rightarrow> string" where
  \<comment> \<open>\<open>s[:k]\<close>: a negative \<open>k\<close> counts from the end\<close>
  "py_slice_to s k =
     (if 0 \<le> k then take (nat k) s else take (nat (int (length s) + k)) s)"

definition py_len :: "string \<Rightarrow> int" where
  "py_len s = int (length s)"

section \<open>tools/outreach.py\<close>

subsection \<open>The text-generation service\<close>

text \<open>
  The generator hands two rendered prompts to an external chat-completion service and
  reads \<open>response.choices[0].message.content\<close>. The prompt templates are fixed text
  around interpolated values, so a request is modelled by the values interpolated into
  it, and the service by an arbitrary function from requests to either a raised error
  or the returned content. A reply without content makes \<open>.strip()\<close> raise, and counts
  as a raised error of the service.
\<close>

datatype value_section =
    Cold_email_template_section string
      \<comment> \<open>"Cold email template to condense (DO NOT copy verbatim ...):" and the excerpt\<close>
  | Resume_context_section string
      \<comment> \<open>"Resume context to draw from:" and the excerpt\<close>
  | Background_highlights_section string
      \<comment> \<open>"Background highlights:" and the excerpt\<close>
  | No_background_section
      \<comment> \<open>"No specific background provided. Focus on genuine interest in the role."\<close>

datatype epic_section = Epic_gap_section | Epic_match_section | No_epic_section

record hunter_prompt =
  hp_max_length :: int
  hp_contact_title :: string
  hp_epic_section :: epic_section
  hp_first_name :: string
  hp_contact_type_display :: string
  hp_company :: string
  hp_job_title :: string
  hp_value_section :: value_section

record farmer_prompt =
  fp_first_name :: string
  fp_company :: string
  fp_title_text :: string
  fp_connected_date :: string
  fp_target_role :: string
  fp_contact_title :: string
  fp_contact_type_display :: string
  fp_value_section :: value_section

record refine_prompt =
  rp_constraint :: "int option"
    \<comment> \<open>"MAXIMUM n characters." or, for \<open>None\<close>, "No character limit."\<close>
  rp_current_message :: string
  rp_edit_instruction :: string

record services =
  hunter_service :: "hunter_prompt \<Rightarrow> error + string"
  farmer_service :: "farmer_prompt \<Rightarrow> error + string"
  refine_service :: "refine_prompt \<Rightarrow> error + string"

subsection \<open>Helpers\<close>

definition str_of :: "string option \<Rightarrow> string" where
  \<comment> \<open>the string behind an optional that passed the truth test\<close>
  "str_of v = (case v of None \<Rightarrow> [] | Some s \<Rightarrow> s)"

definition build_value_section :: "string option \<Rightarrow> string option \<Rightarrow> string \<Rightarrow> value_section" where
  "build_value_section cold_email_template resume_context resume_highlights =
     (if truthy cold_email_template
        then Cold_email_template_section (py_slice_to (str_of cold_email_template) 800)
      else if truthy resume_context
        then Resume_context_section (py_slice_to (str_of resume_context) 500)
      else if resume_highlights \<noteq> []
        then Background_highlights_section (py_slice_to resume_highlights 500)
      else No_background_section)"

definition format_contact_type :: "string \<Rightarrow> string" where
  "format_contact_type contact_type =
     (if contact_type = ''hiring_manager'' then ''Hiring Manager''
      else if contact_type = ''recruiter'' then ''Recruiter''
      else if contact_type = ''team_member'' then ''Team Member / Peer''
      else ''Professional'')"

definition first_name :: "string \<Rightarrow> error + string" where
  \<comment> \<open>\<open>contact_name.split()[0] if contact_name else "there"\<close>\<close>
  "first_name contact_name =
     (if contact_name \<noteq> []
      then (case py_split contact_name of [] \<Rightarrow> Inl IndexError | t # _ \<Rightarrow> Inr t)
      else Inr ''there'')"

definition strip_reply :: "string \<Rightarrow> string" where
  \<comment> \<open>\<open>content.strip().strip('"\'')\<close>\<close>
  "strip_reply content = py_strip_chars [CHR 0x22, CHR 0x27] (py_strip content)"

subsection \<open>Hunter pipeline\<close>

text \<open>
  The source compares \<open>cut_point > max_length * 0.6\<close> in double precision. For
  \<open>|max_length| < 2^53\<close> the rounded product lies on the same side of every integer as
  the exact one (it is exact when \<open>max_length\<close> is a multiple of 5, and otherwise at least
  \<open>1/5\<close> away from any integer), so the test is modelled with the exact product.
\<close>

definition enforce_character_limit :: "int \<Rightarrow> string \<Rightarrow> string" where
  "enforce_character_limit max_length message =
     (if py_len message > max_length then
        (let truncated = py_slice_to message max_length;
             last_period = py_rfind (CHR ''.'') truncated;
             last_question = py_rfind (CHR ''?'') truncated;
             cut_point = max last_period last_question
         in if real_of_int cut_point > real_of_int max_length * (6 / 10)
            then py_slice_to truncated (cut_point + 1)
            else py_slice_to truncated (max_length - 3) @ ''...'')
      else message)"

record cold_connect_note =
  cn_success :: bool
  cn_message :: string
  cn_char_count :: int
  cn_max_allowed :: int
  cn_has_epic_gap :: bool
  cn_type :: string
  cn_pipeline :: string

definition generate_cold_connect_note ::
  "services \<Rightarrow> string \<Rightarrow> string \<Rightarrow> string \<Rightarrow> string \<Rightarrow> string \<Rightarrow> string
     \<Rightarrow> string option \<Rightarrow> string option \<Rightarrow> string \<Rightarrow> int \<Rightarrow> error + cold_connect_note" where
  "generate_cold_connect_note client contact_name contact_title contact_type company job_title
       job_description cold_email_template resume_context resume_highlights max_length =
     (case first_name contact_name of
        Inl e \<Rightarrow> Inl e
      | Inr first \<Rightarrow>
         (let contact_type_display = format_contact_type contact_type;
              check_text = py_lower
                (if truthy resume_context then str_of resume_context
                 else if resume_highlights \<noteq> [] then resume_highlights else []);
              has_epic_requirement =
                (if job_description \<noteq> [] then py_in ''epic'' (py_lower job_description)
                 else False);
              has_epic_skill = py_in ''epic'' check_text;
              has_epic_gap = (has_epic_requirement \<and> \<not> has_epic_skill);
              epic = (if has_epic_gap then Epic_gap_section
                      else if has_epic_requirement \<and> has_epic_skill then Epic_match_section
                      else No_epic_section);
              value_section =
                build_value_section cold_email_template resume_context resume_highlights
          in case hunter_service client
                \<lparr>hp_max_length = max_length, hp_contact_title = contact_title,
                 hp_epic_section = epic, hp_first_name = first,
                 hp_contact_type_display = contact_type_display, hp_company = company,
                 hp_job_title = job_title, hp_value_section = value_section\<rparr> of
               Inl e \<Rightarrow> Inl e
             | Inr content \<Rightarrow>
                (let message = enforce_character_limit max_length (strip_reply content)
                 in Inr \<lparr>cn_success = True, cn_message = message,
                         cn_char_count = py_len message, cn_max_allowed = max_length,
                         cn_has_epic_gap = has_epic_gap, cn_type = ''cold_connect_note'',
                         cn_pipeline = ''hunter''\<rparr>)))"

subsection \<open>Farmer pipeline\<close>

record warm_dm =
  wd_success :: bool
  wd_message :: string
  wd_char_count :: int
  wd_type :: string
  wd_pipeline :: string

definition generate_warm_dm ::
  "services \<Rightarrow> string \<Rightarrow> string \<Rightarrow> string \<Rightarrow> string \<Rightarrow> string option \<Rightarrow> string
     \<Rightarrow> string option \<Rightarrow> string option \<Rightarrow> string option \<Rightarrow> error + warm_dm" where
  "generate_warm_dm client contact_name company target_role connected_date contact_title
       contact_type cold_email_template resume_context resume_highlights =
     (case first_name contact_name of
        Inl e \<Rightarrow> Inl e
      | Inr first \<Rightarrow>
         (let contact_type_display = format_contact_type contact_type;
              title_text = (if truthy contact_title then '' ('' @ str_of contact_title @ '')''
                            else []);
              value_section =
                build_value_section cold_email_template resume_context
                  (if truthy resume_highlights then str_of resume_highlights else [])
          in case farmer_service client
                \<lparr>fp_first_name = first, fp_company = company, fp_title_text = title_text,
                 fp_connected_date = connected_date, fp_target_role = target_role,
                 fp_contact_title =
                   (if truthy contact_title then str_of contact_title else ''Unknown role''),
                 fp_contact_type_display = contact_type_display,
                 fp_value_section = value_section\<rparr> of
               Inl e \<Rightarrow> Inl e
             | Inr content \<Rightarrow>
                (let message = strip_reply content
                 in Inr \<lparr>wd_success = True, wd_message = message,
                         wd_char_count = py_len message, wd_type = ''warm_dm'',
                         wd_pipeline = ''farmer''\<rparr>)))"

subsection \<open>Message refinement\<close>

record refined_message =
  rm_success :: bool
  rm_message :: string
  rm_char_count :: int
  rm_max_allowed :: "int option"
  rm_pipeline :: string

definition default_max_length :: "string \<Rightarrow> int option \<Rightarrow> int option" where
  \<comment> \<open>\<open>if pipeline == "hunter" and max_length is None: max_length = 295\<close>\<close>
  "default_max_length pipeline max_length =
     (if pipeline = ''hunter'' \<and> max_length = None then Some 295 else max_length)"

definition truthy_int :: "int option \<Rightarrow> bool" where
  "truthy_int v = (case v of None \<Rightarrow> False | Some n \<Rightarrow> n \<noteq> 0)"

definition enforce_refine_limit :: "int option \<Rightarrow> string \<Rightarrow> string" where
  \<comment> \<open>\<open>if max_length and len(message) > max_length: message = message[:max_length - 3] + "..."\<close>\<close>
  "enforce_refine_limit max_length message =
     (case max_length of
        None \<Rightarrow> message
      | Some n \<Rightarrow>
          if n \<noteq> 0 \<and> py_len message > n then py_slice_to message (n - 3) @ ''...''
          else message)"

definition refine_message ::
  "services \<Rightarrow> string \<Rightarrow> string \<Rightarrow> int option \<Rightarrow> string \<Rightarrow> error + refined_message" where
  "refine_message client current_message edit_instruction max_length0 pipeline =
     (let max_length = default_max_length pipeline max_length0
      in case refine_service client
            \<lparr>rp_constraint = (if truthy_int max_length then max_length else None),
             rp_current_message = current_message,
             rp_edit_instruction = edit_instruction\<rparr> of
           Inl e \<Rightarrow> Inl e
         | Inr content \<Rightarrow>
            (let message = enforce_refine_limit max_length (strip_reply content)
             in Inr \<lparr>rm_success = True, rm_message = message,
                     rm_char_count = py_len message, rm_max_allowed = max_length,
                     rm_pipeline = pipeline\<rparr>))"

subsection \<open>Pipeline router\<close>

definition determine_pipeline :: "string \<Rightarrow> string \<Rightarrow> string" where
  "determine_pipeline connection_degree contact_source =
     (if connection_degree = ''1st'' \<or> contact_source = ''csv_import''
      then ''farmer'' else ''hunter'')"

subsection \<open>Unified entry point\<close>

datatype generated = Warm_dm warm_dm | Cold_connect_note cold_connect_note

definition generate_message ::
  "services \<Rightarrow> string \<Rightarrow> string \<Rightarrow> string \<Rightarrow> string \<Rightarrow> string \<Rightarrow> string \<Rightarrow> string
     \<Rightarrow> string \<Rightarrow> string option \<Rightarrow> string option \<Rightarrow> string \<Rightarrow> string option
     \<Rightarrow> error + generated" where
  "generate_message client contact_name company job_title contact_title contact_type
       connection_degree contact_source job_description cold_email_template resume_context
       resume_highlights connected_date =
     (let pipeline = determine_pipeline connection_degree contact_source
      in if pipeline = ''farmer''
         then map_sum id Warm_dm
                (generate_warm_dm client contact_name company job_title
                   (if truthy connected_date then str_of connected_date else ''Unknown'')
                   (Some contact_title) contact_type cold_email_template resume_context
                   (Some resume_highlights))
         else map_sum id Cold_connect_note
                (generate_cold_connect_note client contact_name contact_title contact_type
                   company job_title job_description cold_email_template resume_context
                   resume_highlights 295))"

section \<open>tools/resume.py\<close>

subsection \<open>The resume database\<close>

text \<open>
  The resume tools open a connection, run one query inside \<open>try\<close>, and close the
  connection in \<open>finally\<close>. The connection is opened before the \<open>try\<close>, so an error raised
  by \<open>asyncpg.connect\<close>, like one raised by \<open>conn.close()\<close>, leaves the method as an
  exception; an error raised by the query is caught and only its text is kept. The
  database is modelled by what these three steps do. The text columns are nullable.
\<close>

record resumes_row =
  rr_full_text :: "string option"

record generated_resumes_row =
  gr_tailored_content :: "string option"
  gr_final_content :: "string option"
  gr_cold_email_recruiter :: "string option"
  gr_cold_email_manager :: "string option"
  gr_cover_letter_content :: "string option"

record database =
  db_connect :: "error option"
    \<comment> \<open>the error \<open>asyncpg.connect\<close> raises, if it raises\<close>
  db_latest_resume :: "string + resumes_row option"
    \<comment> \<open>the latest row of \<open>resumes\<close>, or the text of the error the query raised\<close>
  db_generated_resume :: "int \<Rightarrow> string + generated_resumes_row option"
    \<comment> \<open>the latest row of \<open>generated_resumes\<close> for an application id\<close>
  db_close :: "error option"
    \<comment> \<open>the error \<open>conn.close()\<close> raises, if it raises\<close>

fun nat_digits :: "nat \<Rightarrow> string" where
  "nat_digits n =
     (if n < 10 then [char_of (48 + n)]
      else nat_digits (n div 10) @ [char_of (48 + n mod 10)])"

definition py_str_int :: "int \<Rightarrow> string" where
  \<comment> \<open>\<open>str(n)\<close> for an integer\<close>
  "py_str_int n = (if n < 0 then CHR ''-'' # nat_digits (nat (- n)) else nat_digits (nat n))"

definition or_empty :: "string option \<Rightarrow> string" where
  \<comment> \<open>\<open>v or ""\<close>\<close>
  "or_empty v = (if truthy v then str_of v else [])"

definition or_none :: "string \<Rightarrow> string option" where
  \<comment> \<open>\<open>s or None\<close>\<close>
  "or_none s = (if s \<noteq> [] then Some s else None)"

subsection \<open>get_active_resume, called without arguments\<close>

record active_resume =
  ar_success :: bool
  ar_error :: "string option"
  ar_full_text :: "string option"

definition get_active_resume :: "database \<Rightarrow> error + active_resume" where
  "get_active_resume db =
     (case db_connect db of
        Some e \<Rightarrow> Inl e
      | None \<Rightarrow>
         (let result =
            (case db_latest_resume db of
               Inl msg \<Rightarrow>
                 \<lparr>ar_success = False, ar_error = Some (''Database error: '' @ msg),
                  ar_full_text = Some []\<rparr>
             | Inr None \<Rightarrow>
                 \<lparr>ar_success = False, ar_error = Some ''No resume found in database'',
                  ar_full_text = Some []\<rparr>
             | Inr (Some row) \<Rightarrow>
                 \<lparr>ar_success = True, ar_error = None, ar_full_text = rr_full_text row\<rparr>)
          in case db_close db of Some e \<Rightarrow> Inl e | None \<Rightarrow> Inr result))"

subsection \<open>get_tailored_resume\<close>

record tailored_resume =
  tr_tailored_content :: string
  tr_final_content :: string
  tr_cold_email_recruiter :: string
  tr_cold_email_manager :: string
  tr_cover_letter_content :: string

datatype resume_data =
    Resume_found tailored_resume
      \<comment> \<open>the dictionary with \<open>success = True\<close>\<close>
  | Resume_error string
      \<comment> \<open>the dictionary with \<open>success = False\<close> and this \<open>error\<close>\<close>

definition get_tailored_resume :: "database \<Rightarrow> int \<Rightarrow> error + resume_data" where
  "get_tailored_resume db application_id =
     (case db_connect db of
        Some e \<Rightarrow> Inl e
      | None \<Rightarrow>
         (let result =
            (case db_generated_resume db application_id of
               Inl msg \<Rightarrow> Resume_error (''Database error: '' @ msg)
             | Inr None \<Rightarrow>
                 Resume_error (''No generated resume found for application_id ''
                               @ py_str_int application_id)
             | Inr (Some row) \<Rightarrow>
                 Resume_found
                   \<lparr>tr_tailored_content = or_empty (gr_tailored_content row),
                    tr_final_content = or_empty (gr_final_content row),
                    tr_cold_email_recruiter = or_empty (gr_cold_email_recruiter row),
                    tr_cold_email_manager = or_empty (gr_cold_email_manager row),
                    tr_cover_letter_content = or_empty (gr_cover_letter_content row)\<rparr>)
          in case db_close db of Some e \<Rightarrow> Inl e | None \<Rightarrow> Inr result))"

subsection \<open>get_cold_email\<close>

text \<open>
  The returned dictionary always carries \<open>success = True\<close>; the record keeps the other
  keys, with \<open>None\<close> for an absent \<open>note\<close>.
\<close>

record cold_email_data =
  ce_cold_email :: "string option"
  ce_resume_context :: "string option"
  ce_fallback_used :: bool
  ce_source_field :: "string option"
  ce_note :: "string option"

definition cold_email_of :: "tailored_resume \<Rightarrow> string \<Rightarrow> cold_email_data" where
  \<comment> \<open>the routing and fallback of \<open>get_cold_email\<close> once the record is there\<close>
  "cold_email_of resume_data contact_type =
     (let (cold_email, source_field) =
            (if contact_type = ''hiring_manager''
               then (or_none (tr_cold_email_manager resume_data), Some ''cold_email_manager'')
             else if contact_type = ''recruiter''
               then (or_none (tr_cold_email_recruiter resume_data), Some ''cold_email_recruiter'')
             else (None, None))
      in if truthy cold_email
         then \<lparr>ce_cold_email = cold_email,
               ce_resume_context = Some (tr_final_content resume_data),
               ce_fallback_used = False, ce_source_field = source_field, ce_note = None\<rparr>
         else
           (let resume_context =
                  (if tr_final_content resume_data \<noteq> []
                     then Some (tr_final_content resume_data)
                   else if tr_tailored_content resume_data \<noteq> []
                     then Some (tr_tailored_content resume_data)
                   else None)
            in \<lparr>ce_cold_email = None, ce_resume_context = resume_context,
                 ce_fallback_used = True,
                 ce_source_field =
                   Some (if tr_final_content resume_data \<noteq> [] then ''final_content''
                         else ''tailored_content''),
                 ce_note = None\<rparr>))"

definition get_cold_email :: "database \<Rightarrow> int \<Rightarrow> string \<Rightarrow> error + cold_email_data" where
  "get_cold_email db application_id contact_type =
     (case get_tailored_resume db application_id of
        Inl e \<Rightarrow> Inl e
      | Inr (Resume_error msg) \<Rightarrow>
          Inr \<lparr>ce_cold_email = None, ce_resume_context = None, ce_fallback_used = True,
               ce_source_field = None, ce_note = Some msg\<rparr>
      | Inr (Resume_found resume_data) \<Rightarrow> Inr (cold_email_of resume_data contact_type))"

subsection \<open>check_skill_match\<close>

record skill_match =
  sm_skill :: string
  sm_requirement_found :: bool
  sm_skill_found :: bool
  sm_has_gap :: bool
  sm_recommendation :: "string option"

definition resolve_resume_text :: "database \<Rightarrow> int option \<Rightarrow> error + string option" where
  \<comment> \<open>the tailored resume if an application id is given, else the generic one\<close>
  "resolve_resume_text db application_id =
     (case application_id of
        Some n \<Rightarrow>
          if n \<noteq> 0 then
            (case get_tailored_resume db n of
               Inl e \<Rightarrow> Inl e
             | Inr (Resume_error msg) \<Rightarrow> Inr (Some [])
             | Inr (Resume_found resume_data) \<Rightarrow>
                 Inr (Some (if tr_final_content resume_data \<noteq> []
                              then tr_final_content resume_data
                            else if tr_tailored_content resume_data \<noteq> []
                              then tr_tailored_content resume_data
                            else [])))
          else map_sum id ar_full_text (get_active_resume db)
      | None \<Rightarrow> map_sum id ar_full_text (get_active_resume db))"

definition skill_match_of :: "string \<Rightarrow> string \<Rightarrow> string \<Rightarrow> skill_match" where
  "skill_match_of job_description skill_to_check resume_text =
     (let jd_lower = py_lower job_description;
          resume_lower = py_lower resume_text;
          skill_lower = py_lower skill_to_check;
          requirement_found = py_in skill_lower jd_lower;
          skill_found = py_in skill_lower resume_lower
      in \<lparr>sm_skill = skill_to_check,
           sm_requirement_found = requirement_found,
           sm_skill_found = skill_found,
           sm_has_gap = (requirement_found \<and> \<not> skill_found),
           sm_recommendation =
             (if requirement_found \<and> \<not> skill_found
              then Some (''JD requires '' @ [CHR 0x27] @ skill_to_check @ [CHR 0x27]
                         @ '' but resume doesn'' @ [CHR 0x27]
                         @ ''t mention it. Address this gap in outreach.'')
              else None)\<rparr>)"

definition check_skill_match ::
  "database \<Rightarrow> string \<Rightarrow> string \<Rightarrow> int option \<Rightarrow> error + skill_match" where
  "check_skill_match db job_description skill_to_check application_id =
     (case resolve_resume_text db application_id of
        Inl e \<Rightarrow> Inl e
      | Inr None \<Rightarrow> Inl AttributeError
          \<comment> \<open>\<open>full_text\<close> is null and \<open>resume_text.lower()\<close> fails\<close>
      | Inr (Some resume_text) \<Rightarrow>
          Inr (skill_match_of job_description skill_to_check resume_text))"

section \<open>server.py: the outreach context resolver\<close>

subsection \<open>What the store adapter returns\<close>

text \<open>
  \<open>airtable.get_contact_with_job\<close> is a collaborator reached over HTTP: it raises, or
  returns a dictionary with \<open>success\<close> and either \<open>error\<close> or \<open>contact\<close> and \<open>job\<close>. A job
  that is the empty dictionary is \<open>None\<close> here. The resume link is a spreadsheet cell:
  absent, a string or a whole number. \<open>int\<close> on a string follows CPython with its default
  limit of 4300 digits.
\<close>

datatype pyval = PNone | PStr string | PInt int

record contact =
  c_contact_id :: string
  c_name :: string
  c_title :: string
  c_linkedin_url :: string
  c_email :: string
  c_contact_type :: string
  c_contact_source :: string
  c_connection_degree :: string
  c_connected_on :: string
  c_message_draft :: string

record job =
  j_job_id :: string
  j_company :: string
  j_role :: string
  j_status :: string
  j_job_description :: string
  j_skill_audit :: string
  j_resume_postgres_id :: pyval

record contact_job =
  cj_success :: bool
  cj_error :: "string option"
  cj_contact :: "contact option"
  cj_job :: "job option"

record backend =
  be_contact_with_job :: "string \<Rightarrow> error + contact_job"
  be_database :: database

subsection \<open>Python conversions on the resume link\<close>

definition truthy_val :: "pyval \<Rightarrow> bool" where
  "truthy_val v = (case v of PNone \<Rightarrow> False | PStr s \<Rightarrow> s \<noteq> [] | PInt n \<Rightarrow> n \<noteq> 0)"

definition py_str_val :: "pyval \<Rightarrow> string" where
  "py_str_val v = (case v of PNone \<Rightarrow> ''None'' | PStr s \<Rightarrow> s | PInt n \<Rightarrow> py_str_int n)"

definition is_digit :: "char \<Rightarrow> bool" where
  "is_digit c = (48 \<le> (of_char c :: nat) \<and> (of_char c :: nat) \<le> 57)"

fun decimal_body :: "bool \<Rightarrow> string \<Rightarrow> bool" where
  \<comment> \<open>digits, with single underscores between digits only\<close>
  "decimal_body after_digit [] = after_digit"
| "decimal_body after_digit (c # cs) =
     (if is_digit c then decimal_body True cs
      else if c = CHR ''_'' \<and> after_digit then decimal_body False cs
      else False)"

definition decimal_value :: "string \<Rightarrow> int" where
  "decimal_value body =
     foldl (\<lambda>acc c. 10 * acc + (int (of_char c) - 48)) 0
       (filter (\<lambda>c. c \<noteq> CHR ''_'') body)"

definition parse_decimal :: "string \<Rightarrow> error + int" where
  \<comment> \<open>the digits after the sign; more than 4300 digits are refused\<close>
  "parse_decimal body =
     (if decimal_body False body \<and> length (filter (\<lambda>c. c \<noteq> CHR ''_'') body) \<le> 4300
      then Inr (decimal_value body) else Inl ValueError)"

definition int_isspace :: "char \<Rightarrow> bool" where
  \<comment> \<open>the whitespace \<open>int\<close> skips around a number: tab to carriage return, space, and the
      two spaces above 127; the separators \<open>0x1C\<close> to \<open>0x1F\<close> are not skipped\<close>
  "int_isspace c =
     (let n = (of_char c :: nat)
      in (9 \<le> n \<and> n \<le> 13) \<or> n = 32 \<or> n = 133 \<or> n = 160)"

definition py_int_str :: "string \<Rightarrow> error + int" where
  \<comment> \<open>\<open>int(s)\<close> for a string: surrounding whitespace, a sign, decimal digits\<close>
  "py_int_str s =
     (case rev (dropWhile int_isspace (rev (dropWhile int_isspace s))) of
        [] \<Rightarrow> Inl ValueError
      | c # cs \<Rightarrow>
          if c = CHR ''-'' then map_sum id uminus (parse_decimal cs)
          else if c = CHR ''+'' then parse_decimal cs
          else parse_decimal (c # cs))"

definition py_int :: "pyval \<Rightarrow> error + int" where
  "py_int v = (case v of PNone \<Rightarrow> Inl TypeError | PStr s \<Rightarrow> py_int_str s | PInt n \<Rightarrow> Inr n)"

subsection \<open>get_outreach_context\<close>

record outreach_context =
  oc_contact :: "contact option"
  oc_job :: "job option"
  oc_cold_email :: "string option"
  oc_resume_context :: "string option"
  oc_fallback_used :: bool
  oc_source_field :: "string option"
  oc_has_epic_gap :: bool
  oc_epic_recommendation :: "string option"

datatype outreach_result =
    Resolve_failure string
      \<comment> \<open>\<open>success = False\<close> with this \<open>error\<close>; \<open>contact\<close> and \<open>job\<close> are null\<close>
  | Resolve_success outreach_context

definition no_cold_email_data :: cold_email_data where
  "no_cold_email_data =
     \<lparr>ce_cold_email = None, ce_resume_context = None, ce_fallback_used = True,
      ce_source_field = None, ce_note = None\<rparr>"

definition resolve_cold_email :: "database \<Rightarrow> pyval \<Rightarrow> string \<Rightarrow> error + cold_email_data" where
  \<comment> \<open>step 2: the cold email or resume context, when there is an application id\<close>
  "resolve_cold_email db resume_postgres_id contact_type =
     (if truthy_val resume_postgres_id then
        (case (case py_int resume_postgres_id of
                 Inl e \<Rightarrow> Inl e
               | Inr application_id \<Rightarrow> get_cold_email db application_id contact_type) of
           Inr cold_email_data \<Rightarrow> Inr cold_email_data
         | Inl e \<Rightarrow>
             if e = ValueError \<or> e = TypeError
             then Inr (no_cold_email_data
                        \<lparr>ce_note := Some (''Invalid resume_postgres_id: ''
                                          @ py_str_val resume_postgres_id)\<rparr>)
             else Inl e)
      else Inr no_cold_email_data)"

definition resolve_epic_check ::
  "database \<Rightarrow> string \<Rightarrow> pyval \<Rightarrow> error + bool \<times> string option" where
  \<comment> \<open>step 3: \<open>has_gap\<close> and \<open>recommendation\<close> of the epic check\<close>
  "resolve_epic_check db job_description resume_postgres_id =
     (if job_description \<noteq> [] then
        map_sum id (\<lambda>m. (sm_has_gap m, sm_recommendation m))
          (if truthy_val resume_postgres_id then
             (case (case py_int resume_postgres_id of
                      Inl e \<Rightarrow> Inl e
                    | Inr application_id \<Rightarrow>
                        check_skill_match db job_description ''epic'' (Some application_id)) of
                Inr m \<Rightarrow> Inr m
              | Inl e \<Rightarrow>
                  if e = ValueError \<or> e = TypeError
                  then check_skill_match db job_description ''epic'' None
                  else Inl e)
           else check_skill_match db job_description ''epic'' None)
      else Inr (False, None))"

definition get_outreach_context :: "backend \<Rightarrow> string \<Rightarrow> error + outreach_result" where
  "get_outreach_context be contact_id =
     (case be_contact_with_job be contact_id of
        Inl e \<Rightarrow> Inl e
      | Inr contact_job \<Rightarrow>
          if \<not> cj_success contact_job then
            Inr (Resolve_failure
                   (case cj_error contact_job of
                      None \<Rightarrow> ''Failed to fetch contact'' | Some msg \<Rightarrow> msg))
          else
            (let contact_type =
                   (case cj_contact contact_job of
                      None \<Rightarrow> ''team_member'' | Some c \<Rightarrow> c_contact_type c);
                 resume_postgres_id =
                   (case cj_job contact_job of
                      None \<Rightarrow> PNone | Some j \<Rightarrow> j_resume_postgres_id j);
                 job_description =
                   (case cj_job contact_job of
                      None \<Rightarrow> [] | Some j \<Rightarrow> j_job_description j)
             in case resolve_cold_email (be_database be) resume_postgres_id contact_type of
                  Inl e \<Rightarrow> Inl e
                | Inr cold_email_data \<Rightarrow>
                   (case resolve_epic_check (be_database be) job_description
                           resume_postgres_id of
                      Inl e \<Rightarrow> Inl e
                    | Inr (has_gap, recommendation) \<Rightarrow>
                        Inr (Resolve_success
                          \<lparr>oc_contact = cj_contact contact_job,
                           oc_job = cj_job contact_job,
                           oc_cold_email = ce_cold_email cold_email_data,
                           oc_resume_context = ce_resume_context cold_email_data,
                           oc_fallback_used = ce_fallback_used cold_email_data,
                           oc_source_field = ce_source_field cold_email_data,
                           oc_has_epic_gap = has_gap,
                           oc_epic_recommendation = recommendation\<rparr>))))"

section \<open>The truncation rule in the specification's words\<close>

definition last_sentence_end :: "string \<Rightarrow> nat option" where
  \<comment> \<open>the index of the last \<open>.\<close> or \<open>?\<close> of the window, if there is one\<close>
  "last_sentence_end window =
     (case filter (\<lambda>i. window ! i = CHR ''.'' \<or> window ! i = CHR ''?'')
             (rev [0..<length window]) of
        [] \<Rightarrow> None
      | i # _ \<Rightarrow> Some i)"

definition truncation_as_claimed :: "nat \<Rightarrow> string \<Rightarrow> string" where
  \<comment> \<open>cut at the last sentence end when it lies at or after 60 percent of the limit\<close>
  "truncation_as_claimed max_length text =
     (let window = take max_length text
      in case last_sentence_end window of
           None \<Rightarrow> take (max_length - 3) text @ ''...''
         | Some i \<Rightarrow>
             if 6 * max_length \<le> 10 * i then take (Suc i) window
             else take (max_length - 3) text @ ''...'')"

definition truncation_strict :: "nat \<Rightarrow> string \<Rightarrow> string" where
  \<comment> \<open>the same rule with the sentence end strictly after 60 percent of the limit\<close>
  "truncation_strict max_length text =
     (let window = take max_length text
      in case last_sentence_end window of
           None \<Rightarrow> take (max_length - 3) text @ ''...''
         | Some i \<Rightarrow>
             if 6 * max_length < 10 * i then take (Suc i) window
             else take (max_length - 3) text @ ''...'')"

section \<open>Collaborators for concrete runs\<close>

definition fixed_reply_client :: "string \<Rightarrow> services" where
  \<comment> \<open>a generation service that answers every request with \<open>content\<close>\<close>
  "fixed_reply_client content =
     \<lparr>hunter_service = (\<lambda>_. Inr content),
      farmer_service = (\<lambda>_. Inr content),
      refine_service = (\<lambda>_. Inr content)\<rparr>"

definition empty_database :: database where
  \<comment> \<open>a reachable database with no rows\<close>
  "empty_database =
     \<lparr>db_connect = None, db_latest_resume = Inr None,
      db_generated_resume = (\<lambda>_. Inr None), db_close = None\<rparr>"

definition one_generated_resume :: "int \<Rightarrow> generated_resumes_row \<Rightarrow> database" where
  \<comment> \<open>a reachable database whose only generated resume belongs to \<open>application_id\<close>\<close>
  "one_generated_resume application_id row =
     empty_database
       \<lparr>db_generated_resume :=
          (\<lambda>i. if i = application_id then Inr (Some row) else Inr None)\<rparr>"

definition fixed_backend :: "contact_job \<Rightarrow> database \<Rightarrow> backend" where
  \<comment> \<open>a store adapter that answers every contact id with \<open>reply\<close>\<close>
  "fixed_backend reply db =
     \<lparr>be_contact_with_job = (\<lambda>_. Inr reply), be_database = db\<rparr>"

definition example_contact :: contact where
  "example_contact =
     \<lparr>c_contact_id = ''rec1'', c_name = ''Sam Lee'', c_title = ''Engineering Manager'',
      c_linkedin_url = [], c_email = [], c_contact_type = ''hiring_manager'',
      c_contact_source = ''apollo'', c_connection_degree = ''2nd'', c_connected_on = [],
      c_message_draft = []\<rparr>"

definition example_job :: "pyval \<Rightarrow> job" where
  "example_job resume_postgres_id =
     \<lparr>j_job_id = ''rec2'', j_company = ''Acme'', j_role = ''Analyst'',
      j_status = ''In progress'', j_job_description = [], j_skill_audit = [],
      j_resume_postgres_id = resume_postgres_id\<rparr>"

section \<open>Properties\<close>

subsection \<open>Auxiliary facts\<close>

lemma sixty_percent_iff:
  "(real_of_int c > real_of_int m * (6 / 10)) = (3 * m < 5 * c)"
proof -
  have "(real_of_int c > real_of_int m * (6 / 10)) = (real_of_int (3 * m) < real_of_int (5 * c))"
    by (simp add: field_simps)
  also have "\<dots> = (3 * m < 5 * c)"
    by (simp only: of_int_less_iff)
  finally show ?thesis .
qed

lemma py_rfind_bounds: "- 1 \<le> py_rfind c s \<and> py_rfind c s < int (length s)"
  by (induction s) (auto simp: Let_def)

lemma py_rfind_nth: "0 \<le> py_rfind c s \<Longrightarrow> s ! nat (py_rfind c s) = c"
proof (induction s)
  case Nil
  then show ?case by simp
next
  case (Cons x xs)
  show ?case
  proof (cases "0 \<le> py_rfind c xs")
    case True
    then have "nat (py_rfind c xs + 1) = Suc (nat (py_rfind c xs))" by simp
    with True Cons.IH show ?thesis by (simp add: Let_def)
  next
    case False
    with Cons.prems show ?thesis by (auto simp: Let_def split: if_splits)
  qed
qed

lemma py_rfind_last: "i < length s \<Longrightarrow> s ! i = c \<Longrightarrow> int i \<le> py_rfind c s"
proof (induction s arbitrary: i)
  case Nil
  then show ?case by simp
next
  case (Cons x xs)
  show ?case
  proof (cases i)
    case 0
    with Cons.prems show ?thesis using py_rfind_bounds [of c xs] by (auto simp: Let_def)
  next
    case (Suc j)
    with Cons.prems have "int j \<le> py_rfind c xs" using Cons.IH [of j] by simp
    with Suc show ?thesis by (simp add: Let_def)
  qed
qed

lemma py_slice_to_nonneg: "0 \<le> k \<Longrightarrow> py_slice_to s k = take (nat k) s"
  by (simp add: py_slice_to_def)

lemma split_from_token:
  "cur \<noteq> [] \<Longrightarrow>
     split_from cur s =
       (cur @ takeWhile (\<lambda>c. \<not> py_isspace c) s)
         # split_from [] (dropWhile (\<lambda>c. \<not> py_isspace c) s)"
  by (induction s arbitrary: cur) auto

lemma split_from_skip: "split_from [] s = split_from [] (dropWhile py_isspace s)"
  by (induction s) auto

lemma py_split_blank: "\<forall>c\<in>set s. py_isspace c \<Longrightarrow> py_split s = []"
  unfolding py_split_def by (induction s) auto

lemma py_split_first:
  assumes "\<not> (\<forall>c\<in>set s. py_isspace c)"
  shows "\<exists>rest. py_split s =
           takeWhile (\<lambda>c. \<not> py_isspace c) (dropWhile py_isspace s) # rest"
proof -
  from assms have "dropWhile py_isspace s \<noteq> []" by (simp add: dropWhile_eq_Nil_conv)
  then obtain c cs where cs: "dropWhile py_isspace s = c # cs"
    by (cases "dropWhile py_isspace s") auto
  then have c: "\<not> py_isspace c" using hd_dropWhile [of py_isspace s] by auto
  have "py_split s = split_from [] (c # cs)"
    unfolding py_split_def using split_from_skip [of s] cs by simp
  also have "\<dots> = split_from [c] cs" using c by simp
  also have "\<dots> = ([c] @ takeWhile (\<lambda>c. \<not> py_isspace c) cs)
                 # split_from [] (dropWhile (\<lambda>c. \<not> py_isspace c) cs)"
    by (rule split_from_token) simp
  finally show ?thesis using c cs by auto
qed

lemma first_name_cases:
  "first_name contact_name =
     (if contact_name = [] then Inr ''there''
      else if \<forall>c\<in>set contact_name. py_isspace c then Inl IndexError
      else Inr (takeWhile (\<lambda>c. \<not> py_isspace c) (dropWhile py_isspace contact_name)))"
proof (cases "\<forall>c\<in>set contact_name. py_isspace c")
  case True
  then show ?thesis by (simp add: first_name_def py_split_blank)
next
  case False
  then obtain rest where "py_split contact_name =
      takeWhile (\<lambda>c. \<not> py_isspace c) (dropWhile py_isspace contact_name) # rest"
    using py_split_first by blast
  with False show ?thesis by (auto simp: first_name_def)
qed

lemma enforce_character_limit_short:
  "py_len message \<le> max_length \<Longrightarrow> enforce_character_limit max_length message = message"
  by (simp add: enforce_character_limit_def)

lemma cut_point_range:
  assumes "0 \<le> max_length" and "max_length < py_len message"
  defines "window \<equiv> take (nat max_length) message"
  defines "cut_point \<equiv> max (py_rfind (CHR ''.'') window) (py_rfind (CHR ''?'') window)"
  shows "- 1 \<le> cut_point" and "cut_point < max_length"
    and "0 \<le> cut_point \<Longrightarrow>
           message ! nat cut_point = CHR ''.'' \<or> message ! nat cut_point = CHR ''?''"
proof -
  have len: "int (length window) = max_length"
    using assms(1,2) by (simp add: py_len_def window_def)
  show lo: "- 1 \<le> cut_point" and hi: "cut_point < max_length"
    using py_rfind_bounds [of "CHR ''.''" window] py_rfind_bounds [of "CHR ''?''" window] len
    unfolding cut_point_def by linarith+
  assume pos: "0 \<le> cut_point"
  then have "window ! nat cut_point = CHR ''.'' \<or> window ! nat cut_point = CHR ''?''"
    using py_rfind_nth [of "CHR ''.''" window] py_rfind_nth [of "CHR ''?''" window]
    unfolding cut_point_def by (cases "py_rfind (CHR ''.'') window \<le> py_rfind (CHR ''?'') window")
      (simp_all add: max_def)
  moreover have "nat cut_point < nat max_length" using pos hi by linarith
  then have "window ! nat cut_point = message ! nat cut_point"
    unfolding window_def by simp
  ultimately show "message ! nat cut_point = CHR ''.'' \<or> message ! nat cut_point = CHR ''?''"
    by simp
qed

lemma enforce_character_limit_long:
  assumes "3 \<le> max_length" and "max_length < py_len message"
  shows "enforce_character_limit max_length message =
     (let window = take (nat max_length) message;
          cut_point = max (py_rfind (CHR ''.'') window) (py_rfind (CHR ''?'') window)
      in if 3 * max_length < 5 * cut_point then take (nat (cut_point + 1)) message
         else take (nat (max_length - 3)) message @ ''...'')"
proof -
  define window where "window = take (nat max_length) message"
  define cut_point where
    "cut_point = max (py_rfind (CHR ''.'') window) (py_rfind (CHR ''?'') window)"
  have nonneg: "0 \<le> max_length" using assms(1) by simp
  have hi: "cut_point < max_length"
    using cut_point_range(2) [OF nonneg assms(2)] by (simp add: cut_point_def window_def)
  have a: "3 * max_length < 5 * cut_point \<Longrightarrow>
      py_slice_to window (cut_point + 1) = take (nat (cut_point + 1)) message"
  proof -
    assume "3 * max_length < 5 * cut_point"
    then have "0 \<le> cut_point + 1" and "nat (cut_point + 1) \<le> nat max_length"
      using hi assms(1) by linarith+
    then show ?thesis by (simp add: py_slice_to_def window_def min_def)
  qed
  have b: "py_slice_to window (max_length - 3) = take (nat (max_length - 3)) message"
  proof -
    have "0 \<le> max_length - 3" and "nat (max_length - 3) \<le> nat max_length"
      using assms(1) by linarith+
    then show ?thesis by (simp add: py_slice_to_def window_def min_def)
  qed
  have "enforce_character_limit max_length message =
      (if 3 * max_length < 5 * cut_point then py_slice_to window (cut_point + 1)
       else py_slice_to window (max_length - 3) @ ''...'')"
    using assms nonneg
    by (simp add: enforce_character_limit_def sixty_percent_iff py_slice_to_nonneg Let_def
        cut_point_def window_def)
  then show ?thesis using a b by (simp add: Let_def cut_point_def window_def)
qed

lemma enforce_character_limit_length:
  assumes "3 \<le> max_length"
  shows "py_len (enforce_character_limit max_length message) \<le> max_length"
proof (cases "max_length < py_len message")
  case False
  then show ?thesis by (simp add: enforce_character_limit_short)
next
  case True
  define cut_point where
    "cut_point = max (py_rfind (CHR ''.'') (take (nat max_length) message))
                     (py_rfind (CHR ''?'') (take (nat max_length) message))"
  have nonneg: "0 \<le> max_length" using assms by simp
  have hi: "cut_point < max_length"
    using cut_point_range(2) [OF nonneg True] by (simp add: cut_point_def)
  have eq: "enforce_character_limit max_length message =
      (if 3 * max_length < 5 * cut_point then take (nat (cut_point + 1)) message
       else take (nat (max_length - 3)) message @ ''...'')"
    using enforce_character_limit_long [OF assms True] by (simp add: Let_def cut_point_def)
  show ?thesis
  proof (cases "3 * max_length < 5 * cut_point")
    case c: True
    have "int (length (take (nat (cut_point + 1)) message)) \<le> cut_point + 1"
      using c assms by simp
    with c hi show ?thesis by (simp add: eq py_len_def del: length_take)
  next
    case c: False
    have "int (length (take (nat (max_length - 3)) message)) \<le> max_length - 3"
      using assms by simp
    with c show ?thesis by (simp add: eq py_len_def del: length_take)
  qed
qed

lemma enforce_character_limit_ending:
  assumes "3 \<le> max_length" and "max_length < py_len message"
  shows "suffix ''.'' (enforce_character_limit max_length message)
       \<or> suffix ''?'' (enforce_character_limit max_length message)
       \<or> suffix ''...'' (enforce_character_limit max_length message)"
proof -
  define cut_point where
    "cut_point = max (py_rfind (CHR ''.'') (take (nat max_length) message))
                     (py_rfind (CHR ''?'') (take (nat max_length) message))"
  have nonneg: "0 \<le> max_length" using assms by simp
  have hi: "cut_point < max_length"
    using cut_point_range(2) [OF nonneg assms(2)] by (simp add: cut_point_def)
  have eq: "enforce_character_limit max_length message =
      (if 3 * max_length < 5 * cut_point then take (nat (cut_point + 1)) message
       else take (nat (max_length - 3)) message @ ''...'')"
    using enforce_character_limit_long [OF assms] by (simp add: Let_def cut_point_def)
  show ?thesis
  proof (cases "3 * max_length < 5 * cut_point")
    case False
    then show ?thesis by (simp add: eq suffix_def)
  next
    case True
    then have pos: "0 \<le> cut_point" using assms(1) by linarith
    have at: "message ! nat cut_point = CHR ''.'' \<or> message ! nat cut_point = CHR ''?''"
      using cut_point_range(3) [OF nonneg assms(2)] pos by (simp add: cut_point_def)
    have lt: "nat cut_point < length message"
      using hi pos assms(2) by (simp add: py_len_def)
    have "nat (cut_point + 1) = Suc (nat cut_point)" using pos by simp
    then have "take (nat (cut_point + 1)) message
        = take (nat cut_point) message @ [message ! nat cut_point]"
      using lt by (simp add: take_Suc_conv_app_nth)
    then show ?thesis using True at by (auto simp: eq suffix_def)
  qed
qed

lemma py_rfind_snoc:
  "py_rfind c (w @ [x]) = (if x = c then int (length w) else py_rfind c w)"
  using py_rfind_bounds [of c w]
proof (induction w)
  case Nil
  then show ?case by simp
next
  case (Cons a w)
  then show ?case using py_rfind_bounds [of c w] by (auto simp: Let_def)
qed

lemma last_sentence_end_snoc:
  "last_sentence_end (w @ [x]) =
     (if x = CHR ''.'' \<or> x = CHR ''?'' then Some (length w) else last_sentence_end w)"
proof -
  have "filter (\<lambda>i. (w @ [x]) ! i = CHR ''.'' \<or> (w @ [x]) ! i = CHR ''?'') (rev [0..<length w])
      = filter (\<lambda>i. w ! i = CHR ''.'' \<or> w ! i = CHR ''?'') (rev [0..<length w])"
    by (rule filter_cong) (auto simp: nth_append)
  then show ?thesis by (simp add: last_sentence_end_def)
qed

lemma last_sentence_end_rfind:
  "last_sentence_end w =
     (if max (py_rfind (CHR ''.'') w) (py_rfind (CHR ''?'') w) < 0 then None
      else Some (nat (max (py_rfind (CHR ''.'') w) (py_rfind (CHR ''?'') w))))"
proof (induction w rule: rev_induct)
  case Nil
  then show ?case by (simp add: last_sentence_end_def)
next
  case (snoc x w)
  show ?case
    using snoc.IH py_rfind_bounds [of "CHR ''.''" w] py_rfind_bounds [of "CHR ''?''" w]
    by (simp add: last_sentence_end_snoc py_rfind_snoc max_def)
qed

lemma last_sentence_end_Some:
  "last_sentence_end w = Some i \<Longrightarrow>
     i < length w \<and> (w ! i = CHR ''.'' \<or> w ! i = CHR ''?'')
     \<and> (\<forall>j. i < j \<and> j < length w \<longrightarrow> w ! j \<noteq> CHR ''.'' \<and> w ! j \<noteq> CHR ''?'')"
proof (induction w rule: rev_induct)
  case Nil
  then show ?case by (simp add: last_sentence_end_def)
next
  case (snoc x w)
  show ?case
  proof (cases "x = CHR ''.'' \<or> x = CHR ''?''")
    case True
    with snoc.prems have "i = length w" by (simp add: last_sentence_end_snoc)
    with True show ?thesis by auto
  next
    case False
    with snoc.prems have "last_sentence_end w = Some i" by (simp add: last_sentence_end_snoc)
    from snoc.IH [OF this] False show ?thesis
      by (auto simp: nth_append less_Suc_eq)
  qed
qed

lemma last_sentence_end_None:
  "last_sentence_end w = None \<Longrightarrow> CHR ''.'' \<notin> set w \<and> CHR ''?'' \<notin> set w"
  by (induction w rule: rev_induct) (auto simp: last_sentence_end_snoc split: if_splits)

lemma py_in_sublist: "py_in needle hay = sublist needle hay"
  by (induction hay) (simp_all add: sublist_Cons_right)

lemma py_lower_occurs:
  "sublist (py_lower needle) (py_lower hay) =
     (\<exists>before run after. hay = before @ run @ after \<and> py_lower run = py_lower needle)"
proof
  assume "sublist (py_lower needle) (py_lower hay)"
  then obtain ps ss where "map py_lower_char hay = ps @ map py_lower_char needle @ ss"
    by (auto simp: sublist_def py_lower_def)
  then have "\<exists>us vs. hay = us @ vs \<and> ps = map py_lower_char us
      \<and> map py_lower_char needle @ ss = map py_lower_char vs"
    by (simp add: map_eq_append_conv)
  then obtain before rest where h1: "hay = before @ rest"
      and h2: "map py_lower_char needle @ ss = map py_lower_char rest"
    by blast
  from h2 have "\<exists>us vs. rest = us @ vs \<and> map py_lower_char needle = map py_lower_char us
      \<and> ss = map py_lower_char vs"
    by (simp add: append_eq_map_conv)
  then obtain run after where "rest = run @ after"
      and "map py_lower_char run = map py_lower_char needle"
    by auto
  with h1 show "\<exists>before run after. hay = before @ run @ after \<and> py_lower run = py_lower needle"
    by (auto simp: py_lower_def)
next
  assume "\<exists>before run after. hay = before @ run @ after \<and> py_lower run = py_lower needle"
  then obtain before run after where "hay = before @ run @ after"
      and "py_lower run = py_lower needle"
    by blast
  then have "py_lower hay = py_lower before @ py_lower needle @ py_lower after"
    by (simp add: py_lower_def)
  then show "sublist (py_lower needle) (py_lower hay)"
    unfolding sublist_def by blast
qed

lemma get_tailored_resume_returns:
  assumes "db_connect db = None" and "db_close db = None"
  shows "\<exists>resume_data. get_tailored_resume db application_id = Inr resume_data"
  using assms by (simp add: get_tailored_resume_def Let_def)

lemma get_tailored_resume_missing:
  assumes "db_connect db = None" and "db_close db = None"
    and "db_generated_resume db application_id = Inr None"
  shows "get_tailored_resume db application_id =
      Inr (Resume_error (''No generated resume found for application_id ''
                         @ py_str_int application_id))"
  using assms by (simp add: get_tailored_resume_def Let_def)

lemma get_cold_email_returns:
  assumes "db_connect db = None" and "db_close db = None"
  shows "\<exists>d. get_cold_email db application_id contact_type = Inr d"
  using get_tailored_resume_returns [OF assms, of application_id]
  by (auto simp: get_cold_email_def split: resume_data.splits)

lemma get_active_resume_returns:
  assumes "db_connect db = None" and "db_close db = None"
  shows "\<exists>r. get_active_resume db = Inr r
    \<and> ar_full_text r =
        (case db_latest_resume db of
           Inr (Some row) \<Rightarrow> rr_full_text row | _ \<Rightarrow> Some [])"
  using assms
  by (auto simp: get_active_resume_def Let_def split: sum.splits option.splits)

lemma resolve_resume_text_returns:
  assumes "db_connect db = None" and "db_close db = None"
    and "\<forall>row. db_latest_resume db = Inr (Some row) \<longrightarrow> rr_full_text row \<noteq> None"
  shows "\<exists>resume_text. resolve_resume_text db application_id = Inr (Some resume_text)"
proof -
  obtain r where r: "get_active_resume db = Inr r"
    and t: "ar_full_text r =
        (case db_latest_resume db of
           Inr (Some row) \<Rightarrow> rr_full_text row | _ \<Rightarrow> Some [])"
    using get_active_resume_returns [OF assms(1,2)] by blast
  from t assms(3) have "\<exists>resume_text. ar_full_text r = Some resume_text"
    by (auto split: sum.splits option.splits)
  then have generic: "\<exists>resume_text.
      map_sum id ar_full_text (get_active_resume db) = Inr (Some resume_text)"
    using r by simp
  show ?thesis
  proof (cases application_id)
    case None
    with generic show ?thesis by (simp add: resolve_resume_text_def)
  next
    case (Some n)
    obtain resume_data where "get_tailored_resume db n = Inr resume_data"
      using get_tailored_resume_returns [OF assms(1,2)] by blast
    with Some generic show ?thesis
      by (cases resume_data) (simp_all add: resolve_resume_text_def)
  qed
qed

lemma check_skill_match_returns:
  assumes "db_connect db = None" and "db_close db = None"
    and "\<forall>row. db_latest_resume db = Inr (Some row) \<longrightarrow> rr_full_text row \<noteq> None"
  shows "\<exists>m. check_skill_match db job_description skill application_id = Inr m"
  using resolve_resume_text_returns [OF assms, of application_id]
  by (auto simp: check_skill_match_def)

lemma py_int_errors: "py_int v = Inl e \<Longrightarrow> e = ValueError \<or> e = TypeError"
  by (cases v)
    (auto simp: py_int_def py_int_str_def parse_decimal_def split: list.splits if_splits)

lemma resolve_cold_email_parse_failure:
  assumes "truthy_val resume_postgres_id" and "py_int resume_postgres_id = Inl e"
  shows "resolve_cold_email db resume_postgres_id contact_type =
      Inr \<lparr>ce_cold_email = None, ce_resume_context = None, ce_fallback_used = True,
           ce_source_field = None,
           ce_note = Some (''Invalid resume_postgres_id: '' @ py_str_val resume_postgres_id)\<rparr>"
  using assms py_int_errors [OF assms(2)]
  by (auto simp: resolve_cold_email_def no_cold_email_data_def)

lemma resolve_cold_email_missing_record:
  assumes "truthy_val resume_postgres_id" and "py_int resume_postgres_id = Inr application_id"
    and "db_connect db = None" and "db_close db = None"
    and "db_generated_resume db application_id = Inr None"
  shows "resolve_cold_email db resume_postgres_id contact_type =
      Inr \<lparr>ce_cold_email = None, ce_resume_context = None, ce_fallback_used = True,
           ce_source_field = None,
           ce_note = Some (''No generated resume found for application_id ''
                           @ py_str_int application_id)\<rparr>"
  using assms
  by (simp add: resolve_cold_email_def get_cold_email_def get_tailored_resume_missing)

lemma resolve_cold_email_returns:
  assumes "db_connect db = None" and "db_close db = None"
  shows "\<exists>d. resolve_cold_email db resume_postgres_id contact_type = Inr d"
proof (cases "truthy_val resume_postgres_id")
  case False
  then show ?thesis by (simp add: resolve_cold_email_def)
next
  case True
  show ?thesis
  proof (cases "py_int resume_postgres_id")
    case (Inl e)
    then show ?thesis using resolve_cold_email_parse_failure [OF True Inl] by simp
  next
    case (Inr n)
    obtain d where "get_cold_email db n contact_type = Inr d"
      using get_cold_email_returns [OF assms] by blast
    with True Inr show ?thesis by (simp add: resolve_cold_email_def)
  qed
qed

lemma resolve_epic_check_returns:
  assumes "db_connect db = None" and "db_close db = None"
    and "\<forall>row. db_latest_resume db = Inr (Some row) \<longrightarrow> rr_full_text row \<noteq> None"
  shows "\<exists>g. resolve_epic_check db job_description resume_postgres_id = Inr g"
proof -
  obtain m0 where m0: "check_skill_match db job_description ''epic'' None = Inr m0"
    using check_skill_match_returns [OF assms] by blast
  show ?thesis
  proof (cases "py_int resume_postgres_id")
    case (Inl e)
    then show ?thesis
      using m0 py_int_errors [OF Inl] by (auto simp: resolve_epic_check_def)
  next
    case (Inr n)
    obtain m where "check_skill_match db job_description ''epic'' (Some n) = Inr m"
      using check_skill_match_returns [OF assms] by blast
    with Inr m0 show ?thesis by (auto simp: resolve_epic_check_def)
  qed
qed

lemma resolve_cold_email_no_row:
  assumes "truthy_val resume_postgres_id" and "py_int resume_postgres_id = Inr application_id"
    and "db_connect db = None" and "db_close db = None"
    and "\<forall>row. db_generated_resume db application_id \<noteq> Inr (Some row)"
  shows "\<exists>note. resolve_cold_email db resume_postgres_id contact_type =
      Inr \<lparr>ce_cold_email = None, ce_resume_context = None, ce_fallback_used = True,
           ce_source_field = None, ce_note = Some note\<rparr>"
  using assms
  by (auto simp: resolve_cold_email_def get_cold_email_def get_tailored_resume_def Let_def
      split: sum.splits option.splits)

lemma resolve_cold_email_connect_error:
  assumes "truthy_val resume_postgres_id" and "py_int resume_postgres_id = Inr application_id"
    and "db_connect db = Some e" and "e \<noteq> ValueError" and "e \<noteq> TypeError"
  shows "resolve_cold_email db resume_postgres_id contact_type = Inl e"
  using assms
  by (simp add: resolve_cold_email_def get_cold_email_def get_tailored_resume_def)

lemma check_skill_match_connect_error:
  assumes "db_connect db = Some e"
  shows "check_skill_match db job_description skill application_id = Inl e"
  using assms
  by (auto simp: check_skill_match_def resolve_resume_text_def get_tailored_resume_def
      get_active_resume_def split: option.splits)

lemma resolve_epic_check_connect_error:
  assumes "db_connect db = Some e" and "job_description \<noteq> []"
  shows "resolve_epic_check db job_description resume_postgres_id = Inl e"
  using assms check_skill_match_connect_error [OF assms(1)]
  by (auto simp: resolve_epic_check_def split: sum.splits dest: py_int_errors)

lemma resolve_cold_email_error:
  assumes "db_connect db = Some e"
    and "resolve_cold_email db resume_postgres_id contact_type = Inl e'"
  shows "e' = e"
  using assms
  by (auto simp: resolve_cold_email_def get_cold_email_def get_tailored_resume_def
      split: sum.splits if_splits dest: py_int_errors)

lemma resolve_cold_email_caught:
  assumes "db_connect db = Some e"
    and "\<not> (truthy_val resume_postgres_id \<and> (\<exists>n. py_int resume_postgres_id = Inr n)
            \<and> e \<noteq> ValueError \<and> e \<noteq> TypeError)"
  shows "\<exists>note. resolve_cold_email db resume_postgres_id contact_type =
      Inr \<lparr>ce_cold_email = None, ce_resume_context = None, ce_fallback_used = True,
           ce_source_field = None, ce_note = note\<rparr>"
proof (cases "truthy_val resume_postgres_id")
  case False
  then show ?thesis by (simp add: resolve_cold_email_def no_cold_email_data_def)
next
  case True
  show ?thesis
  proof (cases "py_int resume_postgres_id")
    case (Inl parse_error)
    then show ?thesis
      using resolve_cold_email_parse_failure [OF True Inl, of db contact_type] by simp
  next
    case (Inr n)
    with True assms(2) have "e = ValueError \<or> e = TypeError" by auto
    then show ?thesis
      using True Inr assms(1)
      by (auto simp: resolve_cold_email_def get_cold_email_def get_tailored_resume_def
          no_cold_email_data_def)
  qed
qed

lemma parse_decimal_digit_limit:
  "4300 < length (filter (\<lambda>c. c \<noteq> CHR ''_'') body) \<Longrightarrow> parse_decimal body = Inl ValueError"
  by (simp add: parse_decimal_def)

lemma py_int_separator_not_skipped:
  "py_int (PStr (CHR 0x1C # ''538'')) = Inl ValueError
   \<and> py_int (PStr (CHR 0x85 # ''538'')) = Inr 538
   \<and> py_int (PStr '' 5_38 '') = Inr 538
   \<and> py_int (PStr ''not-a-number'') = Inl ValueError"
  by code_simp

subsection \<open>The claims\<close>

text \<open>
  C1 (as amended). For a limit of at least 3 (the default is 295), every note that
  \<open>generate_cold_connect_note\<close> returns has \<open>len(message) \<le> max_length\<close>, whatever string
  the generation service returned; and when the truncation step fired, that is when the
  stripped reply was longer than \<open>max_length\<close>, the message ends in \<open>.\<close>, \<open>?\<close> or
  \<open>...\<close>. Otherwise the message is the stripped reply itself.
\<close>

theorem hunter_note_within_limit:
  assumes "3 \<le> max_length"
    and "generate_cold_connect_note client contact_name contact_title contact_type company
           job_title job_description cold_email_template resume_context resume_highlights
           max_length = Inr note"
  shows "py_len (cn_message note) \<le> max_length
    \<and> cn_char_count note = py_len (cn_message note)
    \<and> (\<exists>prompt content.
          hunter_service client prompt = Inr content
          \<and> (if max_length < py_len (strip_reply content)
             then suffix ''.'' (cn_message note) \<or> suffix ''?'' (cn_message note)
                  \<or> suffix ''...'' (cn_message note)
             else cn_message note = strip_reply content))"
proof -
  from assms(2) obtain prompt content where
    svc: "hunter_service client prompt = Inr content" and
    msg: "cn_message note = enforce_character_limit max_length (strip_reply content)" and
    cnt: "cn_char_count note = py_len (cn_message note)"
    by (auto simp: generate_cold_connect_note_def Let_def split: sum.splits)
  have len: "py_len (cn_message note) \<le> max_length"
    unfolding msg by (rule enforce_character_limit_length [OF assms(1)])
  have tail: "if max_length < py_len (strip_reply content)
      then suffix ''.'' (cn_message note) \<or> suffix ''?'' (cn_message note)
           \<or> suffix ''...'' (cn_message note)
      else cn_message note = strip_reply content"
  proof (cases "max_length < py_len (strip_reply content)")
    case True
    then show ?thesis
      unfolding msg using enforce_character_limit_ending [OF assms(1) True] by simp
  next
    case False
    then show ?thesis unfolding msg by (simp add: enforce_character_limit_short)
  qed
  from len cnt svc tail show ?thesis by blast
qed

text \<open>
  A run with limit 10: the reply is cut after the sentence that ends at index 8.
\<close>

theorem hunter_note_within_limit_witness:
  "(3::int) \<le> 10
   \<and> generate_cold_connect_note (fixed_reply_client ''Hi Sam A. Saw your post'')
        ''Sam Lee'' ''Manager'' ''recruiter'' ''Acme'' ''Analyst'' [] None None [] 10
      = Inr \<lparr>cn_success = True, cn_message = ''Hi Sam A.'', cn_char_count = 9,
             cn_max_allowed = 10, cn_has_epic_gap = False, cn_type = ''cold_connect_note'',
             cn_pipeline = ''hunter''\<rparr>
   \<and> py_len ''Hi Sam A.'' \<le> 10"
proof -
  have h1: "(3::int) \<le> 10" by simp
  have h2: "generate_cold_connect_note (fixed_reply_client ''Hi Sam A. Saw your post'')
        ''Sam Lee'' ''Manager'' ''recruiter'' ''Acme'' ''Analyst'' [] None None [] 10
      = Inr \<lparr>cn_success = True, cn_message = ''Hi Sam A.'', cn_char_count = 9,
             cn_max_allowed = 10, cn_has_epic_gap = False, cn_type = ''cold_connect_note'',
             cn_pipeline = ''hunter''\<rparr>"
    by code_simp
  show ?thesis using h1 h2 hunter_note_within_limit [OF h1 h2] by simp
qed

text \<open>
  With a limit below 3 the bound fails: at \<open>max_length = 2\<close> the reply \<open>abc\<close> gives
  \<open>truncated = "ab"\<close>, no sentence end, then \<open>truncated[:-1] + "..."\<close>, four characters.
\<close>

theorem hunter_short_limit_counterexample:
  "generate_cold_connect_note (fixed_reply_client ''abc'')
        ''Sam Lee'' ''Manager'' ''recruiter'' ''Acme'' ''Analyst'' [] None None [] 2
      = Inr \<lparr>cn_success = True, cn_message = ''a...'', cn_char_count = 4,
             cn_max_allowed = 2, cn_has_epic_gap = False, cn_type = ''cold_connect_note'',
             cn_pipeline = ''hunter''\<rparr>
   \<and> \<not> py_len ''a...'' \<le> 2"
  by code_simp

text \<open>
  The unified entry point calls the hunter generator with the default limit, so every
  connection note it returns has at most 295 characters.
\<close>

lemma generate_message_hunter_limit:
  assumes "generate_message client contact_name company job_title contact_title contact_type
             connection_degree contact_source job_description cold_email_template
             resume_context resume_highlights connected_date = Inr (Cold_connect_note note)"
  shows "py_len (cn_message note) \<le> 295 \<and> cn_max_allowed note = 295"
proof -
  from assms have "generate_cold_connect_note client contact_name contact_title contact_type
      company job_title job_description cold_email_template resume_context resume_highlights
      295 = Inr note"
    by (auto simp: generate_message_def Let_def map_sum_def split: if_splits sum.splits)
  then obtain content where
    "cn_message note = enforce_character_limit 295 (strip_reply content)"
    and "cn_max_allowed note = 295"
    by (auto simp: generate_cold_connect_note_def Let_def split: sum.splits)
  then show ?thesis using enforce_character_limit_length [of 295 "strip_reply content"] by simp
qed

text \<open>
  C2 (as amended). For a limit of at least 3 and a text longer than the limit, the
  truncation step takes the first \<open>max_length\<close> characters, finds the last \<open>.\<close> or \<open>?\<close> in
  that window and cuts there, keeping the punctuation, whenever the index of that
  character is strictly greater than 60 percent of \<open>max_length\<close>; otherwise it keeps
  \<open>max_length - 3\<close> characters and appends \<open>...\<close>.
\<close>

theorem hunter_truncation_rule:
  assumes "3 \<le> max_length" and "max_length < py_len text"
  shows "enforce_character_limit max_length text = truncation_strict (nat max_length) text"
proof -
  define window where "window = take (nat max_length) text"
  define cut_point where
    "cut_point = max (py_rfind (CHR ''.'') window) (py_rfind (CHR ''?'') window)"
  have nonneg: "0 \<le> max_length" using assms(1) by simp
  have lo: "- 1 \<le> cut_point" and hi: "cut_point < max_length"
    using cut_point_range(1,2) [OF nonneg assms(2)] by (simp_all add: cut_point_def window_def)
  have code: "enforce_character_limit max_length text =
      (if 3 * max_length < 5 * cut_point then take (nat (cut_point + 1)) text
       else take (nat (max_length - 3)) text @ ''...'')"
    using enforce_character_limit_long [OF assms] by (simp add: Let_def cut_point_def window_def)
  have lse: "last_sentence_end window = (if cut_point < 0 then None else Some (nat cut_point))"
    by (simp add: last_sentence_end_rfind cut_point_def)
  have m3: "nat max_length - 3 = nat (max_length - 3)" using assms(1) by simp
  show ?thesis
  proof (cases "cut_point < 0")
    case True
    then have "\<not> 3 * max_length < 5 * cut_point" using assms(1) by linarith
    with True show ?thesis
      using lse m3 by (simp add: code truncation_strict_def Let_def window_def [symmetric])
  next
    case False
    then have pos: "0 \<le> cut_point" by simp
    have cmp: "(6 * nat max_length < 10 * nat cut_point) = (3 * max_length < 5 * cut_point)"
      using pos nonneg by linarith
    have tk: "take (Suc (nat cut_point)) window = take (nat (cut_point + 1)) text"
    proof -
      have "Suc (nat cut_point) = nat (cut_point + 1)" using pos by simp
      moreover have "nat (cut_point + 1) \<le> nat max_length" using hi pos by linarith
      ultimately show ?thesis by (simp add: window_def min_def)
    qed
    show ?thesis
      using False lse m3 cmp tk
      by (simp add: code truncation_strict_def Let_def window_def [symmetric])
  qed
qed

text \<open>
  A run with limit 10 and the sentence end at index 8.
\<close>

theorem hunter_truncation_rule_witness:
  "(3::int) \<le> 10 \<and> 10 < py_len ''Hi Sam A. Saw your post''
   \<and> enforce_character_limit 10 ''Hi Sam A. Saw your post'' = ''Hi Sam A.''
   \<and> truncation_strict (nat 10) ''Hi Sam A. Saw your post'' = ''Hi Sam A.''"
proof -
  have h1: "(3::int) \<le> 10" by simp
  have h2: "10 < py_len ''Hi Sam A. Saw your post''" by (simp add: py_len_def)
  have v: "truncation_strict (nat 10) ''Hi Sam A. Saw your post'' = ''Hi Sam A.''"
    by code_simp
  show ?thesis using h1 h2 v hunter_truncation_rule [OF h1 h2] by simp
qed

text \<open>
  A sentence end exactly at 60 percent of the limit is not used: with \<open>max_length = 5\<close> and
  the text \<open>abc.ef\<close> the last sentence end is at index 3, the source tests \<open>3 > 5 * 0.6\<close>,
  which is false, and the result is \<open>ab...\<close>, where the rule with "at or after" gives
  \<open>abc.\<close>.
\<close>

theorem hunter_truncation_boundary_counterexample:
  "enforce_character_limit 5 ''abc.ef'' = ''ab...''
   \<and> truncation_as_claimed 5 ''abc.ef'' = ''abc.''"
  by code_simp

text \<open>
  C3. The specification sets \<open>source_field\<close> to null when the fallback finds neither
  \<open>final_content\<close> nor \<open>tailored_content\<close>. The code does not do so: for a
  \<open>team_member\<close> contact and a record whose two contents are empty, \<open>get_cold_email\<close>
  returns \<open>resume_context = None\<close> together with \<open>source_field = "tailored_content"\<close>.
\<close>

theorem cold_email_source_when_both_empty:
  "get_cold_email
     (one_generated_resume 538
        \<lparr>gr_tailored_content = None, gr_final_content = Some [],
         gr_cold_email_recruiter = Some ''Dear recruiter'', gr_cold_email_manager = None,
         gr_cover_letter_content = None\<rparr>)
     538 ''team_member''
   = Inr \<lparr>ce_cold_email = None, ce_resume_context = None, ce_fallback_used = True,
          ce_source_field = Some ''tailored_content'', ce_note = None\<rparr>"
  by code_simp

text \<open>
  The rest of the fallback is as described: with no cold email for the role, the text
  comes from \<open>final_content\<close>, else from \<open>tailored_content\<close>, else there is none;
  \<open>fallback_used\<close> is true; and the label is \<open>final_content\<close> whenever that field is
  non-empty.
\<close>

lemma cold_email_fallback_order:
  assumes "contact_type = ''hiring_manager'' \<longrightarrow> tr_cold_email_manager resume_data = []"
    and "contact_type = ''recruiter'' \<longrightarrow> tr_cold_email_recruiter resume_data = []"
  shows "ce_cold_email (cold_email_of resume_data contact_type) = None
    \<and> ce_fallback_used (cold_email_of resume_data contact_type)
    \<and> ce_resume_context (cold_email_of resume_data contact_type) =
        (if tr_final_content resume_data \<noteq> [] then Some (tr_final_content resume_data)
         else if tr_tailored_content resume_data \<noteq> []
           then Some (tr_tailored_content resume_data)
         else None)
    \<and> ce_source_field (cold_email_of resume_data contact_type) =
        Some (if tr_final_content resume_data \<noteq> [] then ''final_content''
              else ''tailored_content'')"
  using assms by (simp add: cold_email_of_def or_none_def truthy_def Let_def)

text \<open>
  C4 (as amended). When the store adapter returns a reply, the resolver returns a failure
  result exactly when the reply reports failure, and then with the adapter's error message
  unchanged (\<open>Failed to fetch contact\<close> if the reply carries none). With a database whose
  connection opens and closes and whose generic resume text is not null, a successful
  reply always gives a success result that carries the contact and the job; if the
  resume link does not parse as an integer, or no generated resume can be read for it,
  \<open>cold_email\<close> and \<open>resume_context\<close> are null, \<open>fallback_used\<close> is true and \<open>source_field\<close>
  is null. Exceptions are not caught at the boundary. What the adapter call raises
  escapes. An error raised while the database connection is opened escapes whenever the
  job has a description, and, with an empty description, whenever the resume link parses
  as an integer and the error is neither \<open>ValueError\<close> nor \<open>TypeError\<close>; in the remaining
  cases the database is not opened, or the error is caught in the second step, and the
  result is a success result with the cold-email fields null. The last part is the note
  that the second step records for a link that does not parse.
\<close>

theorem outreach_context_failures:
  fixes be :: backend and reply :: contact_job
  defines "db \<equiv> be_database be"
    and "job_link \<equiv> (case cj_job reply of None \<Rightarrow> PNone | Some j \<Rightarrow> j_resume_postgres_id j)"
    and "job_text \<equiv> (case cj_job reply of None \<Rightarrow> [] | Some j \<Rightarrow> j_job_description j)"
  shows
   "(be_contact_with_job be contact_id = Inl e \<longrightarrow> get_outreach_context be contact_id = Inl e)
  \<and> (be_contact_with_job be contact_id = Inr reply \<and> \<not> cj_success reply \<longrightarrow>
       get_outreach_context be contact_id =
         Inr (Resolve_failure
                (case cj_error reply of
                   None \<Rightarrow> ''Failed to fetch contact'' | Some msg \<Rightarrow> msg)))
  \<and> (be_contact_with_job be contact_id = Inr reply \<and> cj_success reply \<longrightarrow>
       (\<forall>msg. get_outreach_context be contact_id \<noteq> Inr (Resolve_failure msg)))
  \<and> (be_contact_with_job be contact_id = Inr reply \<and> cj_success reply
       \<and> db_connect db = None \<and> db_close db = None
       \<and> (\<forall>row. db_latest_resume db = Inr (Some row) \<longrightarrow> rr_full_text row \<noteq> None) \<longrightarrow>
       (\<exists>ctx. get_outreach_context be contact_id = Inr (Resolve_success ctx)
          \<and> oc_contact ctx = cj_contact reply \<and> oc_job ctx = cj_job reply
          \<and> (\<forall>j. cj_job reply = Some j \<and> truthy_val (j_resume_postgres_id j)
                 \<and> (\<forall>n. py_int (j_resume_postgres_id j) = Inr n \<longrightarrow>
                        (\<forall>row. db_generated_resume db n \<noteq> Inr (Some row))) \<longrightarrow>
                 oc_cold_email ctx = None \<and> oc_resume_context ctx = None
                 \<and> oc_fallback_used ctx \<and> oc_source_field ctx = None)))
  \<and> (be_contact_with_job be contact_id = Inr reply \<and> cj_success reply
       \<and> db_connect db = Some raised
       \<and> (job_text \<noteq> []
          \<or> (truthy_val job_link \<and> (\<exists>n. py_int job_link = Inr n)
             \<and> raised \<noteq> ValueError \<and> raised \<noteq> TypeError)) \<longrightarrow>
       get_outreach_context be contact_id = Inl raised)
  \<and> (be_contact_with_job be contact_id = Inr reply \<and> cj_success reply
       \<and> db_connect db = Some raised \<and> job_text = []
       \<and> \<not> (truthy_val job_link \<and> (\<exists>n. py_int job_link = Inr n)
             \<and> raised \<noteq> ValueError \<and> raised \<noteq> TypeError) \<longrightarrow>
       (\<exists>ctx. get_outreach_context be contact_id = Inr (Resolve_success ctx)
          \<and> oc_cold_email ctx = None \<and> oc_resume_context ctx = None
          \<and> oc_fallback_used ctx \<and> oc_source_field ctx = None
          \<and> \<not> oc_has_epic_gap ctx))
  \<and> (truthy_val link \<and> py_int link = Inl parse_error \<longrightarrow>
       resolve_cold_email db link contact_type =
         Inr \<lparr>ce_cold_email = None, ce_resume_context = None, ce_fallback_used = True,
              ce_source_field = None,
              ce_note = Some (''Invalid resume_postgres_id: '' @ py_str_val link)\<rparr>)"
proof (intro conjI impI)
  assume "be_contact_with_job be contact_id = Inl e"
  then show "get_outreach_context be contact_id = Inl e"
    by (simp add: get_outreach_context_def)
next
  assume "be_contact_with_job be contact_id = Inr reply \<and> \<not> cj_success reply"
  then show "get_outreach_context be contact_id =
         Inr (Resolve_failure
                (case cj_error reply of
                   None \<Rightarrow> ''Failed to fetch contact'' | Some msg \<Rightarrow> msg))"
    by (simp add: get_outreach_context_def)
next
  assume "be_contact_with_job be contact_id = Inr reply \<and> cj_success reply"
  then show "\<forall>msg. get_outreach_context be contact_id \<noteq> Inr (Resolve_failure msg)"
    by (auto simp: get_outreach_context_def Let_def split: sum.splits prod.splits)
next
  assume a: "be_contact_with_job be contact_id = Inr reply \<and> cj_success reply
       \<and> db_connect db = None \<and> db_close db = None
       \<and> (\<forall>row. db_latest_resume db = Inr (Some row) \<longrightarrow> rr_full_text row \<noteq> None)"
  define role where
    "role = (case cj_contact reply of
                       None \<Rightarrow> ''team_member'' | Some c \<Rightarrow> c_contact_type c)"
  define cell where
    "cell = (case cj_job reply of None \<Rightarrow> PNone | Some j \<Rightarrow> j_resume_postgres_id j)"
  define description where
    "description = (case cj_job reply of None \<Rightarrow> [] | Some j \<Rightarrow> j_job_description j)"
  from a have c: "db_connect db = None" and cl: "db_close db = None"
    and ft: "\<forall>row. db_latest_resume db = Inr (Some row) \<longrightarrow> rr_full_text row \<noteq> None"
    by simp_all
  obtain d where d: "resolve_cold_email db cell role = Inr d"
    using resolve_cold_email_returns [OF c cl] by blast
  obtain g r where g: "resolve_epic_check db description cell = Inr (g, r)"
    using resolve_epic_check_returns [OF c cl ft, of description cell] by (metis surj_pair)
  let ?ctx = "\<lparr>oc_contact = cj_contact reply, oc_job = cj_job reply,
      oc_cold_email = ce_cold_email d, oc_resume_context = ce_resume_context d,
      oc_fallback_used = ce_fallback_used d, oc_source_field = ce_source_field d,
      oc_has_epic_gap = g, oc_epic_recommendation = r\<rparr>"
  have res: "get_outreach_context be contact_id = Inr (Resolve_success ?ctx)"
    using a d g
    by (simp add: get_outreach_context_def Let_def db_def role_def cell_def
        description_def)
  have nulls: "oc_cold_email ?ctx = None \<and> oc_resume_context ?ctx = None
                 \<and> oc_fallback_used ?ctx \<and> oc_source_field ?ctx = None"
    if j: "cj_job reply = Some j \<and> truthy_val (j_resume_postgres_id j)
           \<and> (\<forall>n. py_int (j_resume_postgres_id j) = Inr n \<longrightarrow>
                  (\<forall>row. db_generated_resume db n \<noteq> Inr (Some row)))" for j
  proof -
    from j have l: "cell = j_resume_postgres_id j" and t: "truthy_val cell"
      by (simp_all add: cell_def)
    show ?thesis
    proof (cases "py_int cell")
      case (Inl e)
      then show ?thesis
        using d resolve_cold_email_parse_failure [OF t Inl, of db role] by auto
    next
      case (Inr n)
      with j l have "\<forall>row. db_generated_resume db n \<noteq> Inr (Some row)" by simp
      from resolve_cold_email_no_row [OF t Inr c cl this, of role] d
      show ?thesis by auto
    qed
  qed
  show "\<exists>ctx. get_outreach_context be contact_id = Inr (Resolve_success ctx)
          \<and> oc_contact ctx = cj_contact reply \<and> oc_job ctx = cj_job reply
          \<and> (\<forall>j. cj_job reply = Some j \<and> truthy_val (j_resume_postgres_id j)
                 \<and> (\<forall>n. py_int (j_resume_postgres_id j) = Inr n \<longrightarrow>
                        (\<forall>row. db_generated_resume db n \<noteq> Inr (Some row))) \<longrightarrow>
                 oc_cold_email ctx = None \<and> oc_resume_context ctx = None
                 \<and> oc_fallback_used ctx \<and> oc_source_field ctx = None)"
  proof (intro exI conjI allI impI)
    show "get_outreach_context be contact_id = Inr (Resolve_success ?ctx)" by (rule res)
    show "oc_contact ?ctx = cj_contact reply" by simp
    show "oc_job ?ctx = cj_job reply" by simp
    fix j
    assume "cj_job reply = Some j \<and> truthy_val (j_resume_postgres_id j)
           \<and> (\<forall>n. py_int (j_resume_postgres_id j) = Inr n \<longrightarrow>
                  (\<forall>row. db_generated_resume db n \<noteq> Inr (Some row)))"
    from nulls [OF this]
    show "oc_cold_email ?ctx = None" and "oc_resume_context ?ctx = None"
      and "oc_fallback_used ?ctx" and "oc_source_field ?ctx = None"
      by simp_all
  qed
next
  assume a: "be_contact_with_job be contact_id = Inr reply \<and> cj_success reply
       \<and> db_connect db = Some raised
       \<and> (job_text \<noteq> []
          \<or> (truthy_val job_link \<and> (\<exists>n. py_int job_link = Inr n)
             \<and> raised \<noteq> ValueError \<and> raised \<noteq> TypeError))"
  define role where
    "role = (case cj_contact reply of
               None \<Rightarrow> ''team_member'' | Some c \<Rightarrow> c_contact_type c)"
  from a have c: "db_connect db = Some raised" by simp
  have ok: "be_contact_with_job be contact_id = Inr reply" "cj_success reply"
    using a by simp_all
  note unfold = get_outreach_context_def Let_def db_def job_link_def job_text_def role_def
  show "get_outreach_context be contact_id = Inl raised"
  proof (cases "job_text \<noteq> []")
    case True
    have epic: "resolve_epic_check db job_text job_link = Inl raised"
      by (rule resolve_epic_check_connect_error [OF c True])
    show ?thesis
    proof (cases "resolve_cold_email db job_link role")
      case (Inl e')
      have "e' = raised" by (rule resolve_cold_email_error [OF c Inl])
      with Inl have "resolve_cold_email db job_link role = Inl raised" by simp
      with ok show ?thesis by (simp add: unfold)
    next
      case (Inr d)
      with ok epic show ?thesis by (simp add: unfold)
    qed
  next
    case False
    with a obtain n where "truthy_val job_link" and "py_int job_link = Inr n"
      and "raised \<noteq> ValueError" and "raised \<noteq> TypeError"
      by auto
    then have "resolve_cold_email db job_link role = Inl raised"
      using resolve_cold_email_connect_error [OF _ _ c] by blast
    with ok show ?thesis by (simp add: unfold)
  qed
next
  assume a: "be_contact_with_job be contact_id = Inr reply \<and> cj_success reply
       \<and> db_connect db = Some raised \<and> job_text = []
       \<and> \<not> (truthy_val job_link \<and> (\<exists>n. py_int job_link = Inr n)
             \<and> raised \<noteq> ValueError \<and> raised \<noteq> TypeError)"
  define role where
    "role = (case cj_contact reply of
               None \<Rightarrow> ''team_member'' | Some c \<Rightarrow> c_contact_type c)"
  from a have c: "db_connect db = Some raised"
    and n: "\<not> (truthy_val job_link \<and> (\<exists>n. py_int job_link = Inr n)
             \<and> raised \<noteq> ValueError \<and> raised \<noteq> TypeError)"
    and t: "job_text = []"
    by simp_all
  obtain recorded where d: "resolve_cold_email db job_link role =
      Inr \<lparr>ce_cold_email = None, ce_resume_context = None, ce_fallback_used = True,
           ce_source_field = None, ce_note = recorded\<rparr>"
    using resolve_cold_email_caught [OF c n] by blast
  have g: "resolve_epic_check db job_text job_link = Inr (False, None)"
    using t by (simp add: resolve_epic_check_def)
  have "get_outreach_context be contact_id =
      Inr (Resolve_success
        \<lparr>oc_contact = cj_contact reply, oc_job = cj_job reply, oc_cold_email = None,
         oc_resume_context = None, oc_fallback_used = True, oc_source_field = None,
         oc_has_epic_gap = False, oc_epic_recommendation = None\<rparr>)"
    using a d g
    by (simp add: get_outreach_context_def Let_def db_def job_link_def job_text_def role_def)
  then show "\<exists>ctx. get_outreach_context be contact_id = Inr (Resolve_success ctx)
          \<and> oc_cold_email ctx = None \<and> oc_resume_context ctx = None
          \<and> oc_fallback_used ctx \<and> oc_source_field ctx = None
          \<and> \<not> oc_has_epic_gap ctx"
    by simp
next
  assume "truthy_val link \<and> py_int link = Inl parse_error"
  then show "resolve_cold_email db link contact_type =
         Inr \<lparr>ce_cold_email = None, ce_resume_context = None, ce_fallback_used = True,
              ce_source_field = None,
              ce_note = Some (''Invalid resume_postgres_id: '' @ py_str_val link)\<rparr>"
    using resolve_cold_email_parse_failure by blast
qed

text \<open>
  Six runs: a failure reported by the adapter; a resume link that is not a number, for
  the resolver and for its second step, where the note is recorded; the link \<open>538\<close>
  with a generated resume that holds a cold email for the hiring manager; and, with a
  database that refuses the connection, a link that \<open>int\<close> rejects and no job description,
  which still resolves, and a job with a description, where the error escapes.
\<close>

theorem outreach_context_failures_witness:
  "get_outreach_context
     (fixed_backend
        \<lparr>cj_success = False, cj_error = Some ''Contact not found: rec1'',
         cj_contact = None, cj_job = None\<rparr>
        empty_database)
     ''rec1''
   = Inr (Resolve_failure ''Contact not found: rec1'')
   \<and> get_outreach_context
     (fixed_backend
        \<lparr>cj_success = True, cj_error = None, cj_contact = Some example_contact,
         cj_job = Some (example_job (PStr ''not-a-number''))\<rparr>
        empty_database)
     ''rec1''
   = Inr (Resolve_success
           \<lparr>oc_contact = Some example_contact,
            oc_job = Some (example_job (PStr ''not-a-number'')),
            oc_cold_email = None, oc_resume_context = None, oc_fallback_used = True,
            oc_source_field = None, oc_has_epic_gap = False,
            oc_epic_recommendation = None\<rparr>)
   \<and> resolve_cold_email empty_database (PStr ''not-a-number'') ''hiring_manager''
   = Inr \<lparr>ce_cold_email = None, ce_resume_context = None, ce_fallback_used = True,
          ce_source_field = None,
          ce_note = Some ''Invalid resume_postgres_id: not-a-number''\<rparr>
   \<and> get_outreach_context
     (fixed_backend
        \<lparr>cj_success = True, cj_error = None, cj_contact = Some example_contact,
         cj_job = Some (example_job (PStr ''538''))\<rparr>
        (one_generated_resume 538
           \<lparr>gr_tailored_content = Some ''Tailored'', gr_final_content = Some ''Final'',
            gr_cold_email_recruiter = None, gr_cold_email_manager = Some ''Dear manager'',
            gr_cover_letter_content = None\<rparr>))
     ''rec1''
   = Inr (Resolve_success
           \<lparr>oc_contact = Some example_contact,
            oc_job = Some (example_job (PStr ''538'')),
            oc_cold_email = Some ''Dear manager'', oc_resume_context = Some ''Final'',
            oc_fallback_used = False, oc_source_field = Some ''cold_email_manager'',
            oc_has_epic_gap = False, oc_epic_recommendation = None\<rparr>)
   \<and> get_outreach_context
     (fixed_backend
        \<lparr>cj_success = True, cj_error = None, cj_contact = Some example_contact,
         cj_job = Some (example_job (PStr (CHR 0x1C # ''538'')))\<rparr>
        (empty_database \<lparr>db_connect := Some (External ''connection refused'')\<rparr>))
     ''rec1''
   = Inr (Resolve_success
           \<lparr>oc_contact = Some example_contact,
            oc_job = Some (example_job (PStr (CHR 0x1C # ''538''))),
            oc_cold_email = None, oc_resume_context = None, oc_fallback_used = True,
            oc_source_field = None, oc_has_epic_gap = False,
            oc_epic_recommendation = None\<rparr>)
   \<and> get_outreach_context
     (fixed_backend
        \<lparr>cj_success = True, cj_error = None, cj_contact = Some example_contact,
         cj_job = Some ((example_job (PStr ''not-a-number''))
                         \<lparr>j_job_description := ''Epic EHR experience''\<rparr>)\<rparr>
        (empty_database \<lparr>db_connect := Some (External ''connection refused'')\<rparr>))
     ''rec1''
   = Inl (External ''connection refused'')"
proof -
  let ?failed = "\<lparr>cj_success = False, cj_error = Some ''Contact not found: rec1'',
         cj_contact = None, cj_job = None\<rparr>"
  have "be_contact_with_job (fixed_backend ?failed empty_database) ''rec1'' = Inr ?failed
      \<and> \<not> cj_success ?failed"
    by (simp add: fixed_backend_def)
  with outreach_context_failures [of "fixed_backend ?failed empty_database" "''rec1''" _ ?failed]
  have h1: "get_outreach_context (fixed_backend ?failed empty_database) ''rec1''
      = Inr (Resolve_failure ''Contact not found: rec1'')"
    by simp
  have h2: "get_outreach_context
     (fixed_backend
        \<lparr>cj_success = True, cj_error = None, cj_contact = Some example_contact,
         cj_job = Some (example_job (PStr ''not-a-number''))\<rparr>
        empty_database)
     ''rec1''
   = Inr (Resolve_success
           \<lparr>oc_contact = Some example_contact,
            oc_job = Some (example_job (PStr ''not-a-number'')),
            oc_cold_email = None, oc_resume_context = None, oc_fallback_used = True,
            oc_source_field = None, oc_has_epic_gap = False,
            oc_epic_recommendation = None\<rparr>)"
    by code_simp
  have h3: "resolve_cold_email empty_database (PStr ''not-a-number'') ''hiring_manager''
   = Inr \<lparr>ce_cold_email = None, ce_resume_context = None, ce_fallback_used = True,
          ce_source_field = None,
          ce_note = Some ''Invalid resume_postgres_id: not-a-number''\<rparr>"
    by code_simp
  have h4: "get_outreach_context
     (fixed_backend
        \<lparr>cj_success = True, cj_error = None, cj_contact = Some example_contact,
         cj_job = Some (example_job (PStr ''538''))\<rparr>
        (one_generated_resume 538
           \<lparr>gr_tailored_content = Some ''Tailored'', gr_final_content = Some ''Final'',
            gr_cold_email_recruiter = None, gr_cold_email_manager = Some ''Dear manager'',
            gr_cover_letter_content = None\<rparr>))
     ''rec1''
   = Inr (Resolve_success
           \<lparr>oc_contact = Some example_contact,
            oc_job = Some (example_job (PStr ''538'')),
            oc_cold_email = Some ''Dear manager'', oc_resume_context = Some ''Final'',
            oc_fallback_used = False, oc_source_field = Some ''cold_email_manager'',
            oc_has_epic_gap = False, oc_epic_recommendation = None\<rparr>)"
    by code_simp
  have h5: "get_outreach_context
     (fixed_backend
        \<lparr>cj_success = True, cj_error = None, cj_contact = Some example_contact,
         cj_job = Some (example_job (PStr (CHR 0x1C # ''538'')))\<rparr>
        (empty_database \<lparr>db_connect := Some (External ''connection refused'')\<rparr>))
     ''rec1''
   = Inr (Resolve_success
           \<lparr>oc_contact = Some example_contact,
            oc_job = Some (example_job (PStr (CHR 0x1C # ''538''))),
            oc_cold_email = None, oc_resume_context = None, oc_fallback_used = True,
            oc_source_field = None, oc_has_epic_gap = False,
            oc_epic_recommendation = None\<rparr>)"
    by code_simp
  let ?described = "\<lparr>cj_success = True, cj_error = None, cj_contact = Some example_contact,
         cj_job = Some ((example_job (PStr ''not-a-number''))
                         \<lparr>j_job_description := ''Epic EHR experience''\<rparr>)\<rparr>"
  let ?refusing = "empty_database \<lparr>db_connect := Some (External ''connection refused'')\<rparr>"
  have "be_contact_with_job (fixed_backend ?described ?refusing) ''rec1'' = Inr ?described
      \<and> cj_success ?described
      \<and> db_connect (be_database (fixed_backend ?described ?refusing))
          = Some (External ''connection refused'')
      \<and> (case cj_job ?described of None \<Rightarrow> [] | Some j \<Rightarrow> j_job_description j) \<noteq> []"
    by (simp add: fixed_backend_def empty_database_def example_job_def)
  with outreach_context_failures [of "fixed_backend ?described ?refusing" "''rec1''" _
      ?described "External ''connection refused''"]
  have h6: "get_outreach_context (fixed_backend ?described ?refusing) ''rec1''
      = Inl (External ''connection refused'')"
    by simp
  from h1 h2 h3 h4 h5 h6 show ?thesis by simp
qed

text \<open>
  An exception does escape the resolver: the adapter succeeds, the resume link is \<open>538\<close>,
  and the database refuses the connection that \<open>get_tailored_resume\<close> opens before its
  \<open>try\<close> block.
\<close>

theorem outreach_context_connect_counterexample:
  "get_outreach_context
     (fixed_backend
        \<lparr>cj_success = True, cj_error = None, cj_contact = Some example_contact,
         cj_job = Some (example_job (PStr ''538''))\<rparr>
        (empty_database \<lparr>db_connect := Some (External ''connection refused'')\<rparr>))
     ''rec1''
   = Inl (External ''connection refused'')"
  by code_simp

text \<open>
  C5. The pipeline router returns \<open>farmer\<close> exactly when the connection degree is \<open>1st\<close> or
  the contact source is \<open>csv_import\<close>, and \<open>hunter\<close> otherwise; the four routes of the
  specification come out as listed. The router is a function of its two arguments alone.
\<close>

theorem determine_pipeline_rule:
  "(determine_pipeline connection_degree contact_source = ''farmer'')
      = (connection_degree = ''1st'' \<or> contact_source = ''csv_import'')
   \<and> (determine_pipeline connection_degree contact_source = ''hunter'')
      = (\<not> (connection_degree = ''1st'' \<or> contact_source = ''csv_import''))
   \<and> determine_pipeline ''1st'' ''apollo'' = ''farmer''
   \<and> determine_pipeline ''2nd'' ''csv_import'' = ''farmer''
   \<and> determine_pipeline ''2nd'' ''apollo'' = ''hunter''
   \<and> determine_pipeline ''3rd'' ''apollo'' = ''hunter''"
  by (simp add: determine_pipeline_def)

text \<open>
  C6. Whenever \<open>check_skill_match\<close> returns, for the resume text it resolved:
  \<open>requirement_found\<close> and \<open>skill_found\<close> say that some contiguous run of the job
  description, respectively of the resume text, equals the skill keyword up to case;
  \<open>has_gap\<close> is \<open>requirement_found and not skill_found\<close>; and the recommendation is
  non-null exactly when \<open>has_gap\<close> is true, and is then the fixed sentence around the
  keyword.
\<close>

theorem check_skill_match_containment:
  assumes "check_skill_match db job_description skill application_id = Inr m"
  shows "\<exists>resume_text.
      resolve_resume_text db application_id = Inr (Some resume_text)
      \<and> sm_requirement_found m =
          (\<exists>before run after. job_description = before @ run @ after
             \<and> py_lower run = py_lower skill)
      \<and> sm_skill_found m =
          (\<exists>before run after. resume_text = before @ run @ after
             \<and> py_lower run = py_lower skill)
      \<and> sm_has_gap m = (sm_requirement_found m \<and> \<not> sm_skill_found m)
      \<and> (sm_recommendation m \<noteq> None) = sm_has_gap m
      \<and> (sm_has_gap m \<longrightarrow>
           sm_recommendation m =
             Some (''JD requires '' @ [CHR 0x27] @ skill @ [CHR 0x27]
                   @ '' but resume doesn'' @ [CHR 0x27]
                   @ ''t mention it. Address this gap in outreach.''))"
proof -
  from assms obtain resume_text where
    r: "resolve_resume_text db application_id = Inr (Some resume_text)" and
    m: "m = skill_match_of job_description skill resume_text"
    by (auto simp: check_skill_match_def split: sum.splits option.splits)
  have "sm_requirement_found m =
          (\<exists>before run after. job_description = before @ run @ after
             \<and> py_lower run = py_lower skill)"
    unfolding m by (simp add: skill_match_of_def Let_def py_in_sublist py_lower_occurs)
  moreover have "sm_skill_found m =
          (\<exists>before run after. resume_text = before @ run @ after
             \<and> py_lower run = py_lower skill)"
    unfolding m by (simp add: skill_match_of_def Let_def py_in_sublist py_lower_occurs)
  moreover have "sm_has_gap m = (sm_requirement_found m \<and> \<not> sm_skill_found m)"
    unfolding m by (simp add: skill_match_of_def Let_def)
  moreover have "(sm_recommendation m \<noteq> None) = sm_has_gap m"
    unfolding m by (simp add: skill_match_of_def Let_def)
  moreover have "sm_has_gap m \<longrightarrow>
           sm_recommendation m =
             Some (''JD requires '' @ [CHR 0x27] @ skill @ [CHR 0x27]
                   @ '' but resume doesn'' @ [CHR 0x27]
                   @ ''t mention it. Address this gap in outreach.'')"
    unfolding m by (simp add: skill_match_of_def Let_def)
  ultimately show ?thesis using r by blast
qed

text \<open>
  The two runs of the specification: a job description with "Epic EHR experience" against
  a resume without the keyword, and against one with "Epic certified".
\<close>

theorem check_skill_match_containment_witness:
  "check_skill_match
     (empty_database \<lparr>db_latest_resume := Inr (Some \<lparr>rr_full_text = Some ''SQL and Python''\<rparr>)\<rparr>)
     ''Epic EHR experience'' ''epic'' None
   = Inr \<lparr>sm_skill = ''epic'', sm_requirement_found = True, sm_skill_found = False,
          sm_has_gap = True,
          sm_recommendation =
            Some (''JD requires '' @ [CHR 0x27] @ ''epic'' @ [CHR 0x27]
                  @ '' but resume doesn'' @ [CHR 0x27]
                  @ ''t mention it. Address this gap in outreach.'')\<rparr>
   \<and> check_skill_match
     (empty_database \<lparr>db_latest_resume := Inr (Some \<lparr>rr_full_text = Some ''Epic certified''\<rparr>)\<rparr>)
     ''Epic EHR experience'' ''epic'' None
   = Inr \<lparr>sm_skill = ''epic'', sm_requirement_found = True, sm_skill_found = True,
          sm_has_gap = False, sm_recommendation = None\<rparr>"
proof -
  have h1: "check_skill_match
     (empty_database \<lparr>db_latest_resume := Inr (Some \<lparr>rr_full_text = Some ''SQL and Python''\<rparr>)\<rparr>)
     ''Epic EHR experience'' ''epic'' None
   = Inr \<lparr>sm_skill = ''epic'', sm_requirement_found = True, sm_skill_found = False,
          sm_has_gap = True,
          sm_recommendation =
            Some (''JD requires '' @ [CHR 0x27] @ ''epic'' @ [CHR 0x27]
                  @ '' but resume doesn'' @ [CHR 0x27]
                  @ ''t mention it. Address this gap in outreach.'')\<rparr>"
    by code_simp
  have h2: "check_skill_match
     (empty_database \<lparr>db_latest_resume := Inr (Some \<lparr>rr_full_text = Some ''Epic certified''\<rparr>)\<rparr>)
     ''Epic EHR experience'' ''epic'' None
   = Inr \<lparr>sm_skill = ''epic'', sm_requirement_found = True, sm_skill_found = True,
          sm_has_gap = False, sm_recommendation = None\<rparr>"
    by code_simp
  show ?thesis
    using h1 h2 check_skill_match_containment [OF h1] check_skill_match_containment [OF h2]
    by simp
qed

text \<open>
  C7. The value section is chosen by strict priority: a non-empty \<open>cold_email_template\<close>
  is used first, cut to its first 800 characters; else a non-empty \<open>resume_context\<close>, cut to
  500; else non-empty \<open>resume_highlights\<close>, cut to 500; else the fixed sentence. Each case
  fixes the result, so a lower source is never used while a higher one is non-empty.
\<close>

theorem value_section_priority:
  "(truthy cold_email_template \<longrightarrow>
      build_value_section cold_email_template resume_context resume_highlights
        = Cold_email_template_section (take 800 (str_of cold_email_template)))
   \<and> (\<not> truthy cold_email_template \<and> truthy resume_context \<longrightarrow>
      build_value_section cold_email_template resume_context resume_highlights
        = Resume_context_section (take 500 (str_of resume_context)))
   \<and> (\<not> truthy cold_email_template \<and> \<not> truthy resume_context \<and> resume_highlights \<noteq> [] \<longrightarrow>
      build_value_section cold_email_template resume_context resume_highlights
        = Background_highlights_section (take 500 resume_highlights))
   \<and> (\<not> truthy cold_email_template \<and> \<not> truthy resume_context \<and> resume_highlights = [] \<longrightarrow>
      build_value_section cold_email_template resume_context resume_highlights
        = No_background_section)"
  by (simp add: build_value_section_def py_slice_to_def)

text \<open>
  One run for each of the four cases; \<open>None\<close> and the empty string both count as absent.
\<close>

theorem value_section_priority_witness:
  "truthy (Some ''Dear team'') \<and> \<not> truthy None \<and> \<not> truthy (Some [])
   \<and> build_value_section (Some ''Dear team'') (Some ''Resume'') ''Highlights''
       = Cold_email_template_section ''Dear team''
   \<and> build_value_section None (Some ''Resume'') ''Highlights''
       = Resume_context_section ''Resume''
   \<and> build_value_section (Some []) None ''Highlights''
       = Background_highlights_section ''Highlights''
   \<and> build_value_section None (Some []) [] = No_background_section"
  using value_section_priority [of "Some ''Dear team''" "Some ''Resume''" "''Highlights''"]
    value_section_priority [of None "Some ''Resume''" "''Highlights''"]
    value_section_priority [of "Some []" None "''Highlights''"]
    value_section_priority [of None "Some []" "[]"]
  by (simp add: truthy_def str_of_def)

text \<open>
  Both generators put this section, and no other, into the request they send to the
  service; the farmer generator reads an absent \<open>resume_highlights\<close> as the empty string.
\<close>

lemma generators_use_value_section:
  "(generate_cold_connect_note client contact_name contact_title contact_type company
      job_title job_description cold_email_template resume_context resume_highlights
      max_length = Inr note \<longrightarrow>
      (\<exists>prompt content. hunter_service client prompt = Inr content
         \<and> hp_value_section prompt =
             build_value_section cold_email_template resume_context resume_highlights))
   \<and> (generate_warm_dm client contact_name company target_role connected_date title
      contact_type cold_email_template resume_context highlights = Inr dm \<longrightarrow>
      (\<exists>prompt content. farmer_service client prompt = Inr content
         \<and> fp_value_section prompt =
             build_value_section cold_email_template resume_context
               (if truthy highlights then str_of highlights else [])))"
proof (intro conjI impI)
  assume "generate_cold_connect_note client contact_name contact_title contact_type company
      job_title job_description cold_email_template resume_context resume_highlights
      max_length = Inr note"
  then show "\<exists>prompt content. hunter_service client prompt = Inr content
         \<and> hp_value_section prompt =
             build_value_section cold_email_template resume_context resume_highlights"
    unfolding generate_cold_connect_note_def Let_def
    by (fastforce split: sum.splits)
next
  assume "generate_warm_dm client contact_name company target_role connected_date title
      contact_type cold_email_template resume_context highlights = Inr dm"
  then show "\<exists>prompt content. farmer_service client prompt = Inr content
         \<and> fp_value_section prompt =
             build_value_section cold_email_template resume_context
               (if truthy highlights then str_of highlights else [])"
    unfolding generate_warm_dm_def Let_def
    by (fastforce split: sum.splits)
qed

text \<open>
  C8 (as amended). \<open>refine_message\<close> reports \<open>max_allowed = 295\<close> when the pipeline is
  \<open>hunter\<close> and no limit was given, and otherwise the limit it was given (so none for
  \<open>farmer\<close> without a limit). When the stripped reply is longer than a limit of at least
  3, the message is its first \<open>max_length - 3\<close> characters followed by \<open>...\<close>, whatever
  punctuation it holds; with no limit, a limit of 0, or a reply within the limit, the
  message is the stripped reply.
\<close>

theorem refine_message_limit:
  assumes "refine_message client current_message edit_instruction max_length pipeline = Inr r"
  shows "rm_max_allowed r =
           (if pipeline = ''hunter'' \<and> max_length = None then Some 295 else max_length)
    \<and> (\<exists>prompt content.
          refine_service client prompt = Inr content
          \<and> (case rm_max_allowed r of
               None \<Rightarrow> rm_message r = strip_reply content
             | Some n \<Rightarrow>
                 (3 \<le> n \<and> n < py_len (strip_reply content) \<longrightarrow>
                    rm_message r = take (nat (n - 3)) (strip_reply content) @ ''...''
                    \<and> py_len (rm_message r) = n)
                 \<and> (n = 0 \<or> py_len (strip_reply content) \<le> n \<longrightarrow>
                    rm_message r = strip_reply content)))"
proof -
  from assms obtain prompt content where
    svc: "refine_service client prompt = Inr content" and
    msg: "rm_message r =
      enforce_refine_limit (default_max_length pipeline max_length) (strip_reply content)" and
    lim: "rm_max_allowed r = default_max_length pipeline max_length"
    by (auto simp: refine_message_def Let_def split: sum.splits)
  have body: "case rm_max_allowed r of
               None \<Rightarrow> rm_message r = strip_reply content
             | Some n \<Rightarrow>
                 (3 \<le> n \<and> n < py_len (strip_reply content) \<longrightarrow>
                    rm_message r = take (nat (n - 3)) (strip_reply content) @ ''...''
                    \<and> py_len (rm_message r) = n)
                 \<and> (n = 0 \<or> py_len (strip_reply content) \<le> n \<longrightarrow>
                    rm_message r = strip_reply content)"
    unfolding msg lim
    by (auto simp: enforce_refine_limit_def py_slice_to_def py_len_def split: option.splits)
  have dflt: "rm_max_allowed r =
      (if pipeline = ''hunter'' \<and> max_length = None then Some 295 else max_length)"
    using lim by (simp add: default_max_length_def)
  from svc body have "\<exists>prompt content.
          refine_service client prompt = Inr content
          \<and> (case rm_max_allowed r of
               None \<Rightarrow> rm_message r = strip_reply content
             | Some n \<Rightarrow>
                 (3 \<le> n \<and> n < py_len (strip_reply content) \<longrightarrow>
                    rm_message r = take (nat (n - 3)) (strip_reply content) @ ''...''
                    \<and> py_len (rm_message r) = n)
                 \<and> (n = 0 \<or> py_len (strip_reply content) \<le> n \<longrightarrow>
                    rm_message r = strip_reply content))"
    by blast
  with dflt show ?thesis by (rule conjI)
qed

text \<open>
  Two runs on the same reply: the default limit leaves it alone, the limit 10 cuts it to
  seven characters and the ellipsis, where the hunter generator would have cut after the
  sentence end at index 7.
\<close>

theorem refine_message_limit_witness:
  "refine_message (fixed_reply_client ''abcdefg. hijk'') ''draft'' ''shorter'' None ''hunter''
     = Inr \<lparr>rm_success = True, rm_message = ''abcdefg. hijk'', rm_char_count = 13,
            rm_max_allowed = Some 295, rm_pipeline = ''hunter''\<rparr>
   \<and> refine_message (fixed_reply_client ''abcdefg. hijk'') ''draft'' ''shorter'' (Some 10) ''hunter''
     = Inr \<lparr>rm_success = True, rm_message = ''abcdefg...'', rm_char_count = 10,
            rm_max_allowed = Some 10, rm_pipeline = ''hunter''\<rparr>
   \<and> enforce_character_limit 10 ''abcdefg. hijk'' = ''abcdefg.''"
proof -
  have h1: "refine_message (fixed_reply_client ''abcdefg. hijk'') ''draft'' ''shorter'' None ''hunter''
     = Inr \<lparr>rm_success = True, rm_message = ''abcdefg. hijk'', rm_char_count = 13,
            rm_max_allowed = Some 295, rm_pipeline = ''hunter''\<rparr>"
    by code_simp
  have h2: "refine_message (fixed_reply_client ''abcdefg. hijk'') ''draft'' ''shorter'' (Some 10) ''hunter''
     = Inr \<lparr>rm_success = True, rm_message = ''abcdefg...'', rm_char_count = 10,
            rm_max_allowed = Some 10, rm_pipeline = ''hunter''\<rparr>"
    by code_simp
  have h3: "enforce_character_limit 10 ''abcdefg. hijk'' = ''abcdefg.''" by code_simp
  show ?thesis using h1 h2 h3 refine_message_limit [OF h1] refine_message_limit [OF h2] by simp
qed

text \<open>
  A limit of 0 is not null, and yet the reply is returned whole: the source tests
  \<open>if max_length and len(message) > max_length\<close>, and \<open>0\<close> is false.
\<close>

theorem refine_zero_limit_counterexample:
  "refine_message (fixed_reply_client ''abcdef'') ''draft'' ''shorter'' (Some 0) ''hunter''
     = Inr \<lparr>rm_success = True, rm_message = ''abcdef'', rm_char_count = 6,
            rm_max_allowed = Some 0, rm_pipeline = ''hunter''\<rparr>"
  by code_simp

text \<open>
  C9. In every note the hunter generator returns, \<open>has_epic_gap\<close> holds exactly when
  \<open>epic\<close> occurs in the lower-cased job description and does not occur in the lower-cased
  \<open>resume_context\<close> if that is non-empty, else \<open>resume_highlights\<close>. The cold-email template
  plays no part: any other template gives the same flag.
\<close>

theorem hunter_epic_gap:
  assumes "generate_cold_connect_note client contact_name contact_title contact_type company
             job_title job_description cold_email_template resume_context resume_highlights
             max_length = Inr note"
  shows "cn_has_epic_gap note =
      (sublist ''epic'' (py_lower job_description)
       \<and> \<not> sublist ''epic''
             (py_lower (if truthy resume_context then str_of resume_context
                        else resume_highlights)))
    \<and> (\<forall>other_template note'.
          generate_cold_connect_note client contact_name contact_title contact_type company
             job_title job_description other_template resume_context resume_highlights
             max_length = Inr note'
          \<longrightarrow> cn_has_epic_gap note' = cn_has_epic_gap note)"
proof -
  have jd: "(if job_description \<noteq> [] then py_in ''epic'' (py_lower job_description) else False)
      = sublist ''epic'' (py_lower job_description)"
    by (cases job_description) (simp_all add: py_in_sublist py_lower_def)
  have rh: "(if truthy resume_context then str_of resume_context
             else if resume_highlights \<noteq> [] then resume_highlights else [])
      = (if truthy resume_context then str_of resume_context else resume_highlights)"
    by simp
  have gap: "cn_has_epic_gap n =
      (sublist ''epic'' (py_lower job_description)
       \<and> \<not> sublist ''epic''
             (py_lower (if truthy resume_context then str_of resume_context
                        else resume_highlights)))"
    if "generate_cold_connect_note client contact_name contact_title contact_type company
             job_title job_description t resume_context resume_highlights
             max_length = Inr n" for t n
    using that unfolding generate_cold_connect_note_def Let_def jd rh
    by (auto simp: py_in_sublist split: sum.splits)
  show ?thesis using gap [OF assms] gap by blast
qed

text \<open>
  A run where only the template mentions Epic: the gap is still reported.
\<close>

theorem hunter_epic_gap_witness:
  "generate_cold_connect_note (fixed_reply_client ''Hi Sam.'')
        ''Sam Lee'' ''Manager'' ''recruiter'' ''Acme'' ''Analyst''
        ''Epic EHR experience'' (Some ''I am Epic certified'') None ''SQL and Python'' 295
      = Inr \<lparr>cn_success = True, cn_message = ''Hi Sam.'', cn_char_count = 7,
             cn_max_allowed = 295, cn_has_epic_gap = True, cn_type = ''cold_connect_note'',
             cn_pipeline = ''hunter''\<rparr>
   \<and> sublist ''epic'' (py_lower ''Epic EHR experience'')
   \<and> \<not> sublist ''epic'' (py_lower ''SQL and Python'')"
proof -
  have h: "generate_cold_connect_note (fixed_reply_client ''Hi Sam.'')
        ''Sam Lee'' ''Manager'' ''recruiter'' ''Acme'' ''Analyst''
        ''Epic EHR experience'' (Some ''I am Epic certified'') None ''SQL and Python'' 295
      = Inr \<lparr>cn_success = True, cn_message = ''Hi Sam.'', cn_char_count = 7,
             cn_max_allowed = 295, cn_has_epic_gap = True, cn_type = ''cold_connect_note'',
             cn_pipeline = ''hunter''\<rparr>"
    by code_simp
  have s: "\<not> sublist ''epic'' (py_lower ''SQL and Python'')"
    unfolding py_in_sublist [symmetric] by code_simp
  show ?thesis using h s hunter_epic_gap [OF h] by (simp add: truthy_def)
qed

text \<open>
  C10. First-name extraction: the empty name gives \<open>there\<close>; a non-empty name of
  whitespace only makes both generators raise \<open>IndexError\<close>, before the service is called;
  any other name gives its first whitespace-delimited token.
\<close>

theorem blank_contact_name_raises:
  "(contact_name = [] \<longrightarrow> first_name contact_name = Inr ''there'')
   \<and> (contact_name \<noteq> [] \<and> (\<forall>c\<in>set contact_name. py_isspace c) \<longrightarrow>
        generate_cold_connect_note client contact_name contact_title contact_type company
          job_title job_description cold_email_template resume_context resume_highlights
          max_length = Inl IndexError
        \<and> generate_warm_dm client contact_name company' target_role connected_date
          contact_title' contact_type' cold_email_template' resume_context' resume_highlights'
          = Inl IndexError)
   \<and> (\<not> (\<forall>c\<in>set contact_name. py_isspace c) \<longrightarrow>
        first_name contact_name =
          Inr (takeWhile (\<lambda>c. \<not> py_isspace c) (dropWhile py_isspace contact_name)))"
  by (auto simp: first_name_cases generate_cold_connect_note_def generate_warm_dm_def)

text \<open>
  Runs on a name of two spaces, on the empty name and on a padded name.
\<close>

theorem blank_contact_name_raises_witness:
  "''  '' \<noteq> [] \<and> list_all py_isspace ''  ''
   \<and> generate_cold_connect_note (fixed_reply_client ''Hi.'') ''  '' ''Manager'' ''recruiter''
        ''Acme'' ''Analyst'' [] None None [] 295 = Inl IndexError
   \<and> generate_warm_dm (fixed_reply_client ''Hi.'') ''  '' ''Acme'' ''Analyst'' ''2024''
        None ''recruiter'' None None None = Inl IndexError
   \<and> first_name [] = Inr ''there''
   \<and> first_name '' Sam  Lee'' = Inr ''Sam''"
proof -
  have sp: "\<forall>c\<in>set ''  ''. py_isspace c" by (simp add: py_isspace_def)
  have ns: "\<not> (\<forall>c\<in>set '' Sam  Lee''. py_isspace c)" by (simp add: py_isspace_def)
  show ?thesis
    using sp ns
      blank_contact_name_raises [of "''  ''" "fixed_reply_client ''Hi.''" "''Manager''"
        "''recruiter''" "''Acme''" "''Analyst''" "[]" None None "[]" 295 "''Acme''"
        "''Analyst''" "''2024''" None "''recruiter''" None None None]
      blank_contact_name_raises [of "[]"]
      blank_contact_name_raises [of "'' Sam  Lee''"]
    by (simp add: py_isspace_def list_all_iff)
qed

end
